theory Spec2Isabelle
  imports Main
begin

section \<open>Data model of the canvas service\<close>

text \<open>
  The canvas service (\<^verbatim>\<open>CanvasService\<close>) orchestrates a relational store (Prisma), an
  object store (MinIO), a search index, a collaboration server holding the live Yjs
  documents, a job queue and a few downstream services. The relational tables are lists
  of rows in insertion order; the other stores are finite maps. Every \<^verbatim>\<open>throw\<close> of the
  source is an \<open>Inl\<close> result, and the state reached when the exception leaves the method
  is returned next to it.
\<close>

datatype error =
    CanvasNotFoundError
  | PrismaError string
  | ObjectNotFound string
  | DecodeError
  | ServiceError string

text \<open>JavaScript truthiness of a string, and of a nullable string column.\<close>

definition truthy :: "string \<Rightarrow> bool" where
  "truthy s = (s \<noteq> [])"

definition truthy_opt :: "string option \<Rightarrow> bool" where
  "truthy_opt k = (case k of None \<Rightarrow> False | Some s \<Rightarrow> truthy s)"

record user =
  uid :: string

record canvas_row =
  c_uid :: string
  c_canvasId :: string
  c_title :: string
  c_status :: string
  c_stateStorageKey :: "string option"
  c_minimapStorageKey :: "string option"
  c_createdAt :: int
  c_updatedAt :: int
  c_deletedAt :: "int option"

record duplicate_record =
  dr_pk :: nat
  dr_uid :: string
  dr_sourceId :: string
  dr_targetId :: string
  dr_entityType :: string
  dr_status :: string

record user_row =
  u_uid :: string
  u_name :: "string option"
  u_nickname :: "string option"
  u_avatar :: "string option"

record relation_row =
  r_canvasId :: string
  r_entityId :: string
  r_entityType :: string
  r_deletedAt :: "int option"

record action_result =
  ar_resultId :: string
  ar_version :: nat
  ar_title :: string
  ar_input :: "string option"
  ar_targetId :: string
  ar_targetType :: string

record action_step =
  as_resultId :: string
  as_version :: nat
  as_content :: string

record document_row =
  d_docId :: string
  d_title :: string
  d_contentPreview :: string

record resource_row =
  rs_resourceId :: string
  rs_title :: string
  rs_contentPreview :: string

text \<open>
  A canvas node as the service reads it: \<^verbatim>\<open>node.type\<close>, \<^verbatim>\<open>node.data.entityId\<close>,
  \<^verbatim>\<open>node.data.title\<close>; the node's own id and the rest of its data travel along untouched.
\<close>

record node_data =
  nd_entityId :: string
  nd_title :: string
  nd_metadata :: string

record canvas_node =
  n_id :: string
  n_type :: string
  n_data :: node_data

type_synonym canvas_edge = "string \<times> string \<times> string"

text \<open>
  The Yjs document of a canvas: the shared text \<^verbatim>\<open>title\<close> and the shared arrays
  \<^verbatim>\<open>nodes\<close> and \<^verbatim>\<open>edges\<close>. An object of the object store is either the encoded state
  of such a document (\<^verbatim>\<open>Y.encodeStateAsUpdate\<close>, which \<^verbatim>\<open>Y.applyUpdate\<close> on a new
  document reads back) or bytes that do not decode (the empty buffer among them).
\<close>

record ydoc =
  y_title :: string
  y_nodes :: "canvas_node list"
  y_edges :: "canvas_edge list"

definition new_ydoc :: ydoc where
  "new_ydoc = \<lparr>y_title = [], y_nodes = [], y_edges = []\<rparr>"

datatype blob = Encoded ydoc | Corrupt

record es_canvas =
  es_title :: string
  es_createdAt :: "int option"
  es_updatedAt :: int
  es_uid :: string

record delete_job =
  j_uid :: string
  j_entityId :: string
  j_entityType :: string
  j_jobId :: string

datatype content_item =
    QuestionAnswer string string
  | TitlePreview string string

datatype model_call =
    GetDefaultModel
  | GenerateCanvasTitle "content_item list"

record db =
  canvas_tbl :: "canvas_row list"
  duplicateRecord_tbl :: "duplicate_record list"
  user_tbl :: "user_row list"
  canvasEntityRelation_tbl :: "relation_row list"
  actionResult_tbl :: "action_result list"
  actionStep_tbl :: "action_step list"
  document_tbl :: "document_row list"
  resource_tbl :: "resource_row list"

text \<open>
  The state of the whole system. \<open>commits\<close> is the history of the relational store: the
  snapshot after every write that reached it, one entry per statement outside a
  transaction and one entry per \<^verbatim>\<open>$transaction\<close>. \<open>modelCalls\<close> logs the calls to
  the language-model side (default-model lookup, title generation), \<open>queueAdds\<close> the
  jobs handed to the delete-knowledge-entity queue.
\<close>

record world =
  prisma :: db
  commits :: "db list"
  minio :: "string \<rightharpoonup> blob"
  collab :: "string \<Rightarrow> ydoc"
  elasticsearch :: "string \<rightharpoonup> es_canvas"
  queueAdds :: "delete_job list"
  modelCalls :: "model_call list"

text \<open>
  What the service takes from outside its own file: the id generator, the clock, two
  facts of the database schema (the column default of \<^verbatim>\<open>Canvas.status\<close>, and which pairs
  of relation rows collide on a unique key of the relation table), the URL builder of the
  misc service, the downstream duplication services (each returns the id of the entity it
  created, nothing, or throws), the moment at which each task of a duplication batch
  settles, the JSON reader of an action result's input (its
  \<^verbatim>\<open>query\<close> member), the default-model lookup and the title generator, and the failures
  of the remote calls that return nothing.
\<close>

datatype remote_call =
    PutObject string
  | RemoveObject string
  | UpsertCanvasIndex string
  | DeleteCanvasIndex string
  | QueueAdd string
  | DuplicateFilesNoCopy string string string

record env =
  genCanvasID :: string
  now :: int
  canvasStatusDefault :: string
  relationConflict :: "relation_row \<Rightarrow> relation_row \<Rightarrow> bool"
  generateFileURL :: "string \<Rightarrow> string"
  duplicateDocument :: "string \<Rightarrow> string \<Rightarrow> string \<Rightarrow> error + string option"
  duplicateResource :: "string \<Rightarrow> string \<Rightarrow> string \<Rightarrow> error + string option"
  duplicateActionResult :: "string \<Rightarrow> string \<Rightarrow> string \<Rightarrow> error + string option"
  settledAt :: "nat \<Rightarrow> nat"
  parseQuery :: "string \<Rightarrow> error + string option"
  getDefaultModel :: "string option"
  generateCanvasTitle :: "content_item list \<Rightarrow> string option \<Rightarrow> error + string"
  fails :: "remote_call \<Rightarrow> error option"

section \<open>The stores\<close>

subsection \<open>Relational store\<close>

text \<open>
  \<^verbatim>\<open>canvasId\<close> is a unique column (the source reads it with \<^verbatim>\<open>findUnique\<close>): an insert
  of a second row with the same id is refused. \<^verbatim>\<open>update\<close> on a unique key throws when
  no row has it. A column the source does not write keeps its value.
\<close>

definition canvas_create :: "canvas_row \<Rightarrow> db \<Rightarrow> error + db" where
  "canvas_create row d =
     (if c_canvasId row \<in> set (map c_canvasId (canvas_tbl d))
      then Inl (PrismaError ''unique constraint: canvasId'')
      else Inr (d\<lparr>canvas_tbl := canvas_tbl d @ [row]\<rparr>))"

definition canvas_update ::
  "(canvas_row \<Rightarrow> bool) \<Rightarrow> (canvas_row \<Rightarrow> canvas_row) \<Rightarrow> db \<Rightarrow> error + db" where
  "canvas_update wh f d =
     (if list_ex wh (canvas_tbl d)
      then Inr (d\<lparr>canvas_tbl := map (\<lambda>c. if wh c then f c else c) (canvas_tbl d)\<rparr>)
      else Inl (PrismaError ''record to update not found''))"

text \<open>The autoincrement key of a new DuplicateRecord is above every key in the table.\<close>

definition next_pk :: "duplicate_record list \<Rightarrow> nat" where
  "next_pk rs = Suc (fold max (map dr_pk rs) 0)"

definition duplicateRecord_create :: "duplicate_record \<Rightarrow> db \<Rightarrow> error + db" where
  "duplicateRecord_create r d = Inr (d\<lparr>duplicateRecord_tbl := duplicateRecord_tbl d @ [r]\<rparr>)"

definition duplicateRecord_update ::
  "nat \<Rightarrow> (duplicate_record \<Rightarrow> duplicate_record) \<Rightarrow> db \<Rightarrow> error + db" where
  "duplicateRecord_update pk f d =
     (if list_ex (\<lambda>r. dr_pk r = pk) (duplicateRecord_tbl d)
      then Inr (d\<lparr>duplicateRecord_tbl :=
                  map (\<lambda>r. if dr_pk r = pk then f r else r) (duplicateRecord_tbl d)\<rparr>)
      else Inl (PrismaError ''record to update not found''))"

definition relation_updateMany ::
  "(relation_row \<Rightarrow> bool) \<Rightarrow> (relation_row \<Rightarrow> relation_row) \<Rightarrow> db \<Rightarrow> error + db" where
  "relation_updateMany wh f d =
     Inr (d\<lparr>canvasEntityRelation_tbl :=
             map (\<lambda>r. if wh r then f r else r) (canvasEntityRelation_tbl d)\<rparr>)"

text \<open>
  \<^verbatim>\<open>createMany\<close> with \<^verbatim>\<open>skipDuplicates\<close>: a row that collides on a unique key with a row of
  the table, or with a row of the batch inserted before it, is left out; every other row
  is inserted.
\<close>

fun insertSkippingDuplicates ::
  "(relation_row \<Rightarrow> relation_row \<Rightarrow> bool) \<Rightarrow> relation_row list \<Rightarrow> relation_row list \<Rightarrow> relation_row list" where
  "insertSkippingDuplicates conflict tbl [] = tbl"
| "insertSkippingDuplicates conflict tbl (r # rows) =
     insertSkippingDuplicates conflict (if list_ex (conflict r) tbl then tbl else tbl @ [r]) rows"

definition relation_createMany ::
  "(relation_row \<Rightarrow> relation_row \<Rightarrow> bool) \<Rightarrow> relation_row list \<Rightarrow> db \<Rightarrow> error + db" where
  "relation_createMany conflict rows d =
     Inr (d\<lparr>canvasEntityRelation_tbl :=
             insertSkippingDuplicates conflict (canvasEntityRelation_tbl d) rows\<rparr>)"

text \<open>
  A write outside a transaction, or a whole \<^verbatim>\<open>$transaction\<close>: all of it reaches the
  store, as one new snapshot, or none of it does.
\<close>

definition prisma_write :: "(db \<Rightarrow> error + db) \<Rightarrow> world \<Rightarrow> (error + unit) \<times> world" where
  "prisma_write op w =
     (case op (prisma w) of
        Inl e \<Rightarrow> (Inl e, w)
      | Inr d \<Rightarrow> (Inr (), w\<lparr>prisma := d, commits := commits w @ [d]\<rparr>))"

definition then_db :: "(db \<Rightarrow> error + db) \<Rightarrow> (db \<Rightarrow> error + db) \<Rightarrow> db \<Rightarrow> error + db" where
  "then_db op1 op2 d = (case op1 d of Inl e \<Rightarrow> Inl e | Inr d1 \<Rightarrow> op2 d1)"

subsection \<open>Object store, search index, queue\<close>

text \<open>
  Modelled from the spec: the adapters of the object store (\<^verbatim>\<open>MinioService\<close>) and of the
  search index (\<^verbatim>\<open>ElasticsearchService\<close>) are not among the sources. The object store is
  "opaque key/value blob storage (get/put/remove object by key)", the search index takes
  "upsert/delete" of "canvas summaries". A call to either, to the queue or to the misc
  service either fails, and then changes nothing, or takes effect.
\<close>

definition remote :: "env \<Rightarrow> remote_call \<Rightarrow> (world \<Rightarrow> world) \<Rightarrow> world \<Rightarrow> (error + unit) \<times> world" where
  "remote env call effect w =
     (case fails env call of Some e \<Rightarrow> (Inl e, w) | None \<Rightarrow> (Inr (), effect w))"

definition putObject :: "env \<Rightarrow> string \<Rightarrow> blob \<Rightarrow> world \<Rightarrow> (error + unit) \<times> world" where
  "putObject env key b = remote env (PutObject key) (\<lambda>w. w\<lparr>minio := (minio w)(key \<mapsto> b)\<rparr>)"

definition removeObject :: "env \<Rightarrow> string \<Rightarrow> world \<Rightarrow> (error + unit) \<times> world" where
  "removeObject env key = remote env (RemoveObject key) (\<lambda>w. w\<lparr>minio := (minio w)(key := None)\<rparr>)"

text \<open>Reading an object and applying it to a new document, as \<^verbatim>\<open>_duplicateCanvas\<close> does.\<close>

definition readObject :: "world \<Rightarrow> string \<Rightarrow> error + ydoc" where
  "readObject w key =
     (case minio w key of
        None \<Rightarrow> Inl (ObjectNotFound key)
      | Some Corrupt \<Rightarrow> Inl DecodeError
      | Some (Encoded d) \<Rightarrow> Inr d)"

definition upsertCanvasIndex ::
  "env \<Rightarrow> string \<Rightarrow> string \<Rightarrow> int option \<Rightarrow> int \<Rightarrow> string \<Rightarrow> world \<Rightarrow> (error + unit) \<times> world" where
  "upsertCanvasIndex env cid t created updated u =
     remote env (UpsertCanvasIndex cid)
       (\<lambda>w. w\<lparr>elasticsearch := (elasticsearch w)(cid \<mapsto>
          \<lparr>es_title = t,
           es_createdAt = (case created of
                             Some c \<Rightarrow> Some c
                           | None \<Rightarrow> (case elasticsearch w cid of
                                         None \<Rightarrow> None | Some old \<Rightarrow> es_createdAt old)),
           es_updatedAt = updated, es_uid = u\<rparr>)\<rparr>)"



text \<open>
  \<^verbatim>\<open>Promise.all\<close> over calls that have all been started: each one takes effect, and the
  call fails when one of them does (here with the first failure in array order).
\<close>

fun promise_all :: "(world \<Rightarrow> (error + unit) \<times> world) list \<Rightarrow> world \<Rightarrow> (error + unit) \<times> world" where
  "promise_all [] w = (Inr (), w)"
| "promise_all (f # fs) w =
     (case f w of (r, w1) \<Rightarrow>
        (case promise_all fs w1 of (r', w2) \<Rightarrow>
           ((case r of Inl e \<Rightarrow> Inl e | Inr _ \<Rightarrow> r'), w2)))"

section \<open>Reading canvases\<close>

definition minimapUrl :: "env \<Rightarrow> canvas_row \<Rightarrow> string option" where
  "minimapUrl env c =
     (case c_minimapStorageKey c of
        None \<Rightarrow> None
      | Some k \<Rightarrow> if truthy k then Some (generateFileURL env k) else None)"

text \<open>
  \<^verbatim>\<open>listCanvases\<close>: \<^verbatim>\<open>findMany\<close> with \<^verbatim>\<open>where: {uid, deletedAt: null}\<close>,
  \<^verbatim>\<open>orderBy: {updatedAt: 'desc'}\<close>, \<^verbatim>\<open>skip: (page - 1) * pageSize\<close>, \<^verbatim>\<open>take: pageSize\<close>.
  \<open>page\<close> and \<open>pageSize\<close> are counts; Prisma refuses a negative \<^verbatim>\<open>skip\<close>.
\<close>

definition listCanvases ::
  "env \<Rightarrow> world \<Rightarrow> user \<Rightarrow> nat \<Rightarrow> nat \<Rightarrow> error + (canvas_row \<times> string option) list" where
  "listCanvases env w usr page pageSize =
     (let skip = (int page - 1) * int pageSize in
      if skip < 0 then Inl (PrismaError ''skip is negative'')
      else
        Inr (map (\<lambda>c. (c, minimapUrl env c))
               (take pageSize (drop (nat skip)
                  (sort_key (\<lambda>c. - c_updatedAt c)
                     (filter (\<lambda>c. c_uid c = uid usr \<and> c_deletedAt c = None)
                        (canvas_tbl (prisma w))))))))"

definition getCanvasDetail ::
  "env \<Rightarrow> world \<Rightarrow> user \<Rightarrow> string \<Rightarrow> error + (canvas_row \<times> string option)" where
  "getCanvasDetail env w usr canvasId =
     (case find (\<lambda>c. c_canvasId c = canvasId \<and> c_uid c = uid usr \<and> c_deletedAt c = None)
             (canvas_tbl (prisma w)) of
        None \<Rightarrow> Inl CanvasNotFoundError
      | Some canvas \<Rightarrow> Inr (canvas, minimapUrl env canvas))"

text \<open>
  \<^verbatim>\<open>getCanvasYDoc\<close> returns null for a falsy key and catches every failure of the read
  (missing object, empty or undecodable state), returning null as well.
\<close>

definition getCanvasYDoc :: "world \<Rightarrow> string option \<Rightarrow> ydoc option" where
  "getCanvasYDoc w stateStorageKey =
     (case stateStorageKey of
        None \<Rightarrow> None
      | Some k \<Rightarrow>
          if \<not> truthy k then None
          else (case readObject w k of Inl e \<Rightarrow> None | Inr doc \<Rightarrow> Some doc))"

definition saveCanvasYDoc :: "env \<Rightarrow> string \<Rightarrow> ydoc \<Rightarrow> world \<Rightarrow> (error + unit) \<times> world" where
  "saveCanvasYDoc env stateStorageKey doc = putObject env stateStorageKey (Encoded doc)"

record raw_owner =
  o_uid :: string
  o_name :: "string option"
  o_nickname :: "string option"
  o_avatar :: "string option"

record raw_canvas_data =
  raw_title :: string
  raw_nodes :: "canvas_node list"
  raw_edges :: "canvas_edge list"
  raw_owner :: raw_owner
  raw_minimapUrl :: "string option"

definition getCanvasRawData :: "env \<Rightarrow> world \<Rightarrow> user \<Rightarrow> string \<Rightarrow> error + raw_canvas_data" where
  "getCanvasRawData env w usr canvasId =
     (case find (\<lambda>c. c_canvasId c = canvasId \<and> c_uid c = uid usr \<and> c_deletedAt c = None)
             (canvas_tbl (prisma w)) of
        None \<Rightarrow> Inl CanvasNotFoundError
      | Some canvas \<Rightarrow>
          (let userPo = find (\<lambda>u. u_uid u = uid usr) (user_tbl (prisma w));
               doc = getCanvasYDoc w (c_stateStorageKey canvas)
           in Inr \<lparr>raw_title = c_title canvas,
                   raw_nodes = (case doc of None \<Rightarrow> [] | Some d \<Rightarrow> y_nodes d),
                   raw_edges = (case doc of None \<Rightarrow> [] | Some d \<Rightarrow> y_edges d),
                   raw_owner = \<lparr>o_uid = c_uid canvas,
                                 o_name = (case userPo of None \<Rightarrow> None | Some u \<Rightarrow> u_name u),
                                 o_nickname = (case userPo of None \<Rightarrow> None | Some u \<Rightarrow> u_nickname u),
                                 o_avatar = (case userPo of None \<Rightarrow> None | Some u \<Rightarrow> u_avatar u)\<rparr>,
                   raw_minimapUrl = minimapUrl env canvas\<rparr>))"

section \<open>Creating a canvas\<close>

definition createCanvas :: "env \<Rightarrow> world \<Rightarrow> user \<Rightarrow> string \<Rightarrow> (error + canvas_row) \<times> world" where
  "createCanvas env w usr title =
     (let canvasId = genCanvasID env;
          stateStorageKey = ''state/'' @ canvasId;
          canvas = \<lparr>c_uid = uid usr, c_canvasId = canvasId, c_title = title,
                    c_status = canvasStatusDefault env,
                    c_stateStorageKey = Some stateStorageKey, c_minimapStorageKey = None,
                    c_createdAt = now env, c_updatedAt = now env, c_deletedAt = None\<rparr>
      in case prisma_write (canvas_create canvas) w of
           (Inl e, w1) \<Rightarrow> (Inl e, w1)
         | (Inr _, w1) \<Rightarrow>
             (let ydoc = new_ydoc\<lparr>y_title := title\<rparr>
              in case saveCanvasYDoc env stateStorageKey ydoc w1 of
                   (Inl e, w2) \<Rightarrow> (Inl e, w2)
                 | (Inr _, w2) \<Rightarrow>
                     (case upsertCanvasIndex env (c_canvasId canvas) (c_title canvas)
                             (Some (c_createdAt canvas)) (c_updatedAt canvas) (c_uid canvas) w2 of
                        (Inl e, w3) \<Rightarrow> (Inl e, w3)
                      | (Inr _, w3) \<Rightarrow> (Inr canvas, w3))))"

section \<open>Duplicating a canvas\<close>

text \<open>
  One node of the copy, when entities are duplicated: a document, resource or
  skillResponse node is handed to its downstream service, and when the service returns
  an entity the node's \<^verbatim>\<open>data.entityId\<close> is overwritten with the new id. A failure of the
  service is the failure of the whole batch.
\<close>

definition setEntityId :: "string \<Rightarrow> canvas_node \<Rightarrow> canvas_node" where
  "setEntityId newId node = node\<lparr>n_data := (n_data node)\<lparr>nd_entityId := newId\<rparr>\<rparr>"

definition duplicateEntity :: "env \<Rightarrow> user_row \<Rightarrow> string \<Rightarrow> canvas_node \<Rightarrow> error + canvas_node" where
  "duplicateEntity env usr targetCanvasId node =
     (let entityType = n_type node;
          entityId = nd_entityId (n_data node)
      in if entityType = ''document'' then
           (case duplicateDocument env (u_uid usr) entityId (nd_title (n_data node)) of
              Inl e \<Rightarrow> Inl e
            | Inr None \<Rightarrow> Inr node
            | Inr (Some docId) \<Rightarrow> Inr (setEntityId docId node))
         else if entityType = ''resource'' then
           (case duplicateResource env (u_uid usr) entityId (nd_title (n_data node)) of
              Inl e \<Rightarrow> Inl e
            | Inr None \<Rightarrow> Inr node
            | Inr (Some resourceId) \<Rightarrow> Inr (setEntityId resourceId node))
         else if entityType = ''skillResponse'' then
           (case duplicateActionResult env (u_uid usr) entityId targetCanvasId of
              Inl e \<Rightarrow> Inl e
            | Inr None \<Rightarrow> Inr node
            | Inr (Some resultId) \<Rightarrow> Inr (setEntityId resultId node))
         else Inr node)"

text \<open>
  The batch: \<^verbatim>\<open>Promise.all\<close> over one task per node, five at a time. Every task is
  started and settles on its own; the batch fulfils when no task was rejected, and is
  rejected with the error of the rejected task that settled first. The moment at which the
  task at a position of the batch settles is taken from outside (\<^verbatim>\<open>settledAt\<close>); of two
  rejected tasks that settle at the same moment, the one earlier in the batch counts.
\<close>

definition duplicateEntities :: "env \<Rightarrow> user_row \<Rightarrow> string \<Rightarrow> canvas_node list \<Rightarrow> error + canvas_node list" where
  "duplicateEntities env usr targetCanvasId nodes =
     (let settled = map (duplicateEntity env usr targetCanvasId) nodes;
          rejected = filter (\<lambda>index. isl (settled ! index)) [0..<length nodes]
      in if rejected = [] then Inr (map projr settled)
         else Inl (projl (settled ! arg_min_list (settledAt env) rejected)))"

record duplicate_job =
  job_uid :: string
  job_title :: string
  job_sourceCanvasId :: string
  job_targetCanvasId :: string
  job_duplicateEntities :: bool
  job_dupRecord :: duplicate_record

text \<open>
  \<^verbatim>\<open>_duplicateCanvas\<close>, the copy body. It returns without an error, and without having
  done anything, when the user row is missing.
\<close>

definition priv_duplicateCanvas :: "env \<Rightarrow> world \<Rightarrow> duplicate_job \<Rightarrow> (error + unit) \<times> world" where
  "priv_duplicateCanvas env w job =
     (case find (\<lambda>u. u_uid u = job_uid job) (user_tbl (prisma w)) of
        None \<Rightarrow> (Inr (), w)
      | Some usr \<Rightarrow>
     (case find (\<lambda>c. c_canvasId c = job_sourceCanvasId job \<and> c_deletedAt c = None)
             (canvas_tbl (prisma w)) of
        None \<Rightarrow> (Inl CanvasNotFoundError, w)
      | Some sourceCanvas \<Rightarrow>
     (case (if truthy_opt (c_stateStorageKey sourceCanvas)
            then readObject w (the (c_stateStorageKey sourceCanvas))
            else Inr new_ydoc) of
        Inl e \<Rightarrow> (Inl e, w)
      | Inr doc \<Rightarrow>
     (case (if job_duplicateEntities job
            then duplicateEntities env usr (job_targetCanvasId job) (y_nodes doc)
            else Inr (y_nodes doc)) of
        Inl e \<Rightarrow> (Inl e, w)
      | Inr nodes \<Rightarrow>
     (case (if c_uid sourceCanvas \<noteq> u_uid usr
            then remote env (DuplicateFilesNoCopy (job_sourceCanvasId job) (c_uid sourceCanvas)
                               (job_targetCanvasId job)) (\<lambda>w. w) w
            else (Inr (), w)) of
        (Inl e, w1) \<Rightarrow> (Inl e, w1)
      | (Inr _, w1) \<Rightarrow>
     (let doc' = doc\<lparr>y_title := job_title job, y_nodes := nodes\<rparr>;
          stateStorageKey = ''state/'' @ job_targetCanvasId job
      in case putObject env stateStorageKey (Encoded doc') w1 of
           (Inl e, w2) \<Rightarrow> (Inl e, w2)
         | (Inr _, w2) \<Rightarrow>
             prisma_write
               (then_db
                  (canvas_update (\<lambda>c. c_canvasId c = job_targetCanvasId job)
                     (\<lambda>c. c\<lparr>c_status := ''ready''\<rparr>))
                  (duplicateRecord_update (dr_pk (job_dupRecord job))
                     (\<lambda>r. r\<lparr>dr_status := ''finish''\<rparr>)))
               w2))))))"

text \<open>
  \<^verbatim>\<open>duplicateCanvas(user, {title, canvasId, duplicateEntities}, {checkOwnership})\<close>.
  The owner is part of the source lookup only when \<^verbatim>\<open>checkOwnership\<close> is set. The
  target row and the DuplicateRecord are created by two statements, outside any
  transaction. When the copy body throws, the record is set to \<^verbatim>\<open>failed\<close> and the error
  is thrown again.
\<close>

definition sourceWhere :: "user \<Rightarrow> string \<Rightarrow> bool \<Rightarrow> canvas_row \<Rightarrow> bool" where
  "sourceWhere usr canvasId checkOwnership c =
     (c_canvasId c = canvasId \<and> c_deletedAt c = None
      \<and> (if checkOwnership then c_uid c = uid usr else True))"

definition newTitleOf :: "string option \<Rightarrow> canvas_row \<Rightarrow> string" where
  "newTitleOf title canvas = (if truthy_opt title then the title else c_title canvas)"

definition newCanvasRow :: "env \<Rightarrow> user \<Rightarrow> string \<Rightarrow> canvas_row" where
  "newCanvasRow env usr newTitle =
     \<lparr>c_uid = uid usr, c_canvasId = genCanvasID env, c_title = newTitle,
      c_status = ''duplicating'',
      c_stateStorageKey = Some (''state/'' @ genCanvasID env), c_minimapStorageKey = None,
      c_createdAt = now env, c_updatedAt = now env, c_deletedAt = None\<rparr>"

definition pendingRecord :: "env \<Rightarrow> user \<Rightarrow> string \<Rightarrow> db \<Rightarrow> duplicate_record" where
  "pendingRecord env usr canvasId d =
     \<lparr>dr_pk = next_pk (duplicateRecord_tbl d), dr_uid = uid usr,
      dr_sourceId = canvasId, dr_targetId = genCanvasID env,
      dr_entityType = ''canvas'', dr_status = ''pending''\<rparr>"

definition copyJob :: "env \<Rightarrow> user \<Rightarrow> string \<Rightarrow> string \<Rightarrow> bool \<Rightarrow> duplicate_record \<Rightarrow> duplicate_job" where
  "copyJob env usr newTitle canvasId duplicateEnts dupRecord =
     \<lparr>job_uid = uid usr, job_title = newTitle, job_sourceCanvasId = canvasId,
      job_targetCanvasId = genCanvasID env, job_duplicateEntities = duplicateEnts,
      job_dupRecord = dupRecord\<rparr>"

definition duplicateCanvas ::
  "env \<Rightarrow> world \<Rightarrow> user \<Rightarrow> string option \<Rightarrow> string \<Rightarrow> bool \<Rightarrow> bool \<Rightarrow> (error + canvas_row) \<times> world" where
  "duplicateCanvas env w usr title canvasId duplicateEnts checkOwnership =
     (case find (sourceWhere usr canvasId checkOwnership) (canvas_tbl (prisma w)) of
        None \<Rightarrow> (Inl CanvasNotFoundError, w)
      | Some canvas \<Rightarrow>
     (let newTitle = newTitleOf title canvas;
          newCanvas = newCanvasRow env usr newTitle
      in case prisma_write (canvas_create newCanvas) w of
           (Inl e, w1) \<Rightarrow> (Inl e, w1)
         | (Inr _, w1) \<Rightarrow>
     (let dupRecord = pendingRecord env usr canvasId (prisma w1)
      in case prisma_write (duplicateRecord_create dupRecord) w1 of
           (Inl e, w2) \<Rightarrow> (Inl e, w2)
         | (Inr _, w2) \<Rightarrow>
     (case priv_duplicateCanvas env w2
             (copyJob env usr newTitle canvasId duplicateEnts dupRecord) of
        (Inl e, w3) \<Rightarrow>
          (case prisma_write
                  (duplicateRecord_update (dr_pk dupRecord) (\<lambda>r. r\<lparr>dr_status := ''failed''\<rparr>)) w3 of
             (Inl e', w4) \<Rightarrow> (Inl e', w4)
           | (Inr _, w4) \<Rightarrow> (Inl e, w4))
      | (Inr _, w3) \<Rightarrow> (Inr newCanvas, w3)))))"

text \<open>
  The state in which the copy body starts once the source is found and the new id is
  free: the target row has been committed, then the pending record.
\<close>

definition withTarget :: "env \<Rightarrow> user \<Rightarrow> string \<Rightarrow> db \<Rightarrow> db" where
  "withTarget env usr newTitle d = d\<lparr>canvas_tbl := canvas_tbl d @ [newCanvasRow env usr newTitle]\<rparr>"

definition withRecord :: "env \<Rightarrow> user \<Rightarrow> string \<Rightarrow> db \<Rightarrow> db" where
  "withRecord env usr canvasId d =
     d\<lparr>duplicateRecord_tbl := duplicateRecord_tbl d @ [pendingRecord env usr canvasId d]\<rparr>"

definition beforeCopy :: "env \<Rightarrow> world \<Rightarrow> user \<Rightarrow> string \<Rightarrow> string \<Rightarrow> world" where
  "beforeCopy env w usr newTitle canvasId =
     (let d1 = withTarget env usr newTitle (prisma w);
          d2 = withRecord env usr canvasId d1
      in w\<lparr>prisma := d2, commits := commits w @ [d1, d2]\<rparr>)"

text \<open>
  The two states in which a duplication can leave the relational store, written out: the
  record failed and the target row as it was inserted, or the record finished and the
  target row ready.
\<close>

definition failedDb :: "env \<Rightarrow> user \<Rightarrow> string \<Rightarrow> string \<Rightarrow> db \<Rightarrow> db" where
  "failedDb env usr newTitle canvasId d =
     (withTarget env usr newTitle d)\<lparr>duplicateRecord_tbl :=
        duplicateRecord_tbl d @ [(pendingRecord env usr canvasId d)\<lparr>dr_status := ''failed''\<rparr>]\<rparr>"

definition finishedDb :: "env \<Rightarrow> user \<Rightarrow> string \<Rightarrow> string \<Rightarrow> db \<Rightarrow> db" where
  "finishedDb env usr newTitle canvasId d =
     d\<lparr>canvas_tbl := canvas_tbl d @ [(newCanvasRow env usr newTitle)\<lparr>c_status := ''ready''\<rparr>],
       duplicateRecord_tbl :=
         duplicateRecord_tbl d @ [(pendingRecord env usr canvasId d)\<lparr>dr_status := ''finish''\<rparr>]\<rparr>"

text \<open>The run of the copy body that \<^verbatim>\<open>duplicateCanvas\<close> awaits inside its \<^verbatim>\<open>try\<close>.\<close>

definition copyBody ::
  "env \<Rightarrow> world \<Rightarrow> user \<Rightarrow> string option \<Rightarrow> canvas_row \<Rightarrow> string \<Rightarrow> bool \<Rightarrow> (error + unit) \<times> world" where
  "copyBody env w usr title canvas canvasId duplicateEnts =
     (let newTitle = newTitleOf title canvas
      in priv_duplicateCanvas env (beforeCopy env w usr newTitle canvasId)
           (copyJob env usr newTitle canvasId duplicateEnts
              (pendingRecord env usr canvasId (withTarget env usr newTitle (prisma w)))))"

text \<open>
  The node list of a canvas as \<^verbatim>\<open>getCanvasRawData\<close> reads it from the stored state: empty
  when the state cannot be read.
\<close>

definition storedNodes :: "world \<Rightarrow> canvas_row \<Rightarrow> canvas_node list" where
  "storedNodes w canvas =
     (case getCanvasYDoc w (c_stateStorageKey canvas) of None \<Rightarrow> [] | Some d \<Rightarrow> y_nodes d)"

text \<open>
  What the duplication of entities is to do with one node, said without the control flow:
  the id the downstream service of the node's type returned, if the type has a service and
  the service returned an entity, replaces the node's entity id; nothing else changes.
\<close>

definition forkedId :: "env \<Rightarrow> string \<Rightarrow> string \<Rightarrow> canvas_node \<Rightarrow> string option" where
  "forkedId env requester targetCanvasId node =
     (let answer =
            (if n_type node = ''document''
             then duplicateDocument env requester (nd_entityId (n_data node)) (nd_title (n_data node))
             else if n_type node = ''resource''
             then duplicateResource env requester (nd_entityId (n_data node)) (nd_title (n_data node))
             else if n_type node = ''skillResponse''
             then duplicateActionResult env requester (nd_entityId (n_data node)) targetCanvasId
             else Inr None)
      in case answer of Inl e \<Rightarrow> None | Inr r \<Rightarrow> r)"

definition forkedNode :: "env \<Rightarrow> string \<Rightarrow> string \<Rightarrow> canvas_node \<Rightarrow> canvas_node" where
  "forkedNode env requester targetCanvasId node =
     (case forkedId env requester targetCanvasId node of
        None \<Rightarrow> node
      | Some newId \<Rightarrow> setEntityId newId node)"

section \<open>Updating and deleting a canvas\<close>

text \<open>
  Modelled from the spec: the collaboration service (\<^verbatim>\<open>CollabService\<close>) is not among the
  sources. It "loads/applies/serializes a replicated document representing a canvas's
  nodes, edges, and title"; a session's \<^verbatim>\<open>transact(fn)\<close> "applies \<open>fn\<close> as a single atomic
  replicated update", and closing the session leaves the result in place. The live
  document of a canvas is the one served under the canvas id.
\<close>

definition transact :: "string \<Rightarrow> (ydoc \<Rightarrow> ydoc) \<Rightarrow> world \<Rightarrow> world" where
  "transact canvasId f w = w\<lparr>collab := (collab w)(canvasId := f (collab w canvasId))\<rparr>"

definition updateCanvas ::
  "env \<Rightarrow> world \<Rightarrow> user \<Rightarrow> string \<Rightarrow> string option \<Rightarrow> string option \<Rightarrow> (error + canvas_row) \<times> world" where
  "updateCanvas env w usr canvasId title minimapStorageKey =
     (let wh = (\<lambda>c. c_canvasId c = canvasId \<and> c_uid c = uid usr \<and> c_deletedAt c = None)
      in case find wh (canvas_tbl (prisma w)) of
        None \<Rightarrow> (Inl CanvasNotFoundError, w)
      | Some canvas \<Rightarrow>
     (let originalMinimap = c_minimapStorageKey canvas;
          updates = (\<lambda>c. (case minimapStorageKey of
                             None \<Rightarrow> (\<lambda>c. c)
                           | Some k \<Rightarrow> (\<lambda>c. c\<lparr>c_minimapStorageKey := Some k\<rparr>))
                          ((case title of None \<Rightarrow> (\<lambda>c. c) | Some t \<Rightarrow> (\<lambda>c. c\<lparr>c_title := t\<rparr>)) c))
      in case prisma_write (canvas_update wh updates) w of
           (Inl e, w1) \<Rightarrow> (Inl e, w1)
         | (Inr _, w1) \<Rightarrow>
     (let updatedCanvas = updates canvas;
          w2 = (case title of
                  None \<Rightarrow> w1
                | Some t \<Rightarrow> transact canvasId (\<lambda>d. d\<lparr>y_title := t\<rparr>) w1)
      in case (if truthy_opt originalMinimap \<and> minimapStorageKey \<noteq> None
                  \<and> minimapStorageKey \<noteq> originalMinimap
               then removeObject env (the originalMinimap) w2
               else (Inr (), w2)) of
           (Inl e, w3) \<Rightarrow> (Inl e, w3)
         | (Inr _, w3) \<Rightarrow>
             (case upsertCanvasIndex env (c_canvasId updatedCanvas) (c_title updatedCanvas)
                     None (c_updatedAt updatedCanvas) (c_uid updatedCanvas) w3 of
                (Inl e, w4) \<Rightarrow> (Inl e, w4)
              | (Inr _, w4) \<Rightarrow> (Inr updatedCanvas, w4)))))"



section \<open>Entity relations\<close>

type_synonym entity = "string \<times> string"

abbreviation entityId :: "entity \<Rightarrow> string" where
  "entityId e \<equiv> fst e"

abbreviation entityType :: "entity \<Rightarrow> string" where
  "entityType e \<equiv> snd e"

text \<open>
  \<^verbatim>\<open>syncCanvasEntityRelation(canvasId)\<close>. The canvas is read by id alone. The entities
  are the nodes with a truthy entity id and type; both differences are taken on the
  entity id alone, through the two \<^verbatim>\<open>Set\<close>s of ids.
\<close>

definition nodeEntity :: "canvas_node \<Rightarrow> entity" where
  "nodeEntity node = (nd_entityId (n_data node), n_type node)"

definition relationEntity :: "relation_row \<Rightarrow> entity" where
  "relationEntity r = (r_entityId r, r_entityType r)"

definition nodeEntities :: "canvas_node list \<Rightarrow> entity list" where
  "nodeEntities nodes =
     filter (\<lambda>e. truthy (entityId e) \<and> truthy (entityType e)) (map nodeEntity nodes)"

definition newRelation :: "string \<Rightarrow> entity \<Rightarrow> relation_row" where
  "newRelation canvasId e =
     \<lparr>r_canvasId = canvasId, r_entityId = entityId e, r_entityType = entityType e,
      r_deletedAt = None\<rparr>"

definition syncCanvasEntityRelation :: "env \<Rightarrow> world \<Rightarrow> string \<Rightarrow> (error + unit) \<times> world" where
  "syncCanvasEntityRelation env w canvasId =
     (case find (\<lambda>c. c_canvasId c = canvasId) (canvas_tbl (prisma w)) of
        None \<Rightarrow> (Inl CanvasNotFoundError, w)
      | Some canvas \<Rightarrow>
     (let nodes = y_nodes (collab w (c_canvasId canvas));
          entities = nodeEntities nodes;
          existingRelations = filter (\<lambda>r. r_canvasId r = canvasId \<and> r_deletedAt r = None)
                                (canvasEntityRelation_tbl (prisma w));
          entityIds = set (map entityId entities);
          relationsToRemove = filter (\<lambda>relation. r_entityId relation \<notin> entityIds) existingRelations;
          existingEntityIds = set (map r_entityId existingRelations);
          relationsToCreate = filter (\<lambda>e. entityId e \<notin> existingEntityIds) entities
      in promise_all
           [prisma_write
              (relation_updateMany
                 (\<lambda>r. r_canvasId r = canvasId
                      \<and> r_entityId r \<in> set (map r_entityId relationsToRemove)
                      \<and> r_deletedAt r = None)
                 (\<lambda>r. r\<lparr>r_deletedAt := Some (now env)\<rparr>)),
            prisma_write
              (relation_createMany (relationConflict env)
                 (map (newRelation canvasId) relationsToCreate))]
           w))"

text \<open>
  \<^verbatim>\<open>deleteEntityNodesFromCanvases(entities)\<close>. The relation rows are selected by
  \<^verbatim>\<open>entityId in [...]\<close> and \<^verbatim>\<open>entityType in [...]\<close>, each on its own; the nodes are
  matched pair by pair. In one canvas: the indices of the matching nodes are collected
  in ascending order, the list is reversed, and each index is deleted in turn.
\<close>

definition relationSelected :: "entity list \<Rightarrow> relation_row \<Rightarrow> bool" where
  "relationSelected entities r =
     (r_entityId r \<in> set (map entityId entities)
      \<and> r_entityType r \<in> set (map entityType entities)
      \<and> r_deletedAt r = None)"

definition nodeMatches :: "entity list \<Rightarrow> canvas_node \<Rightarrow> bool" where
  "nodeMatches entities node =
     (let eid = nd_entityId (n_data node); etype = n_type node
      in if truthy eid \<and> truthy etype
         then find (\<lambda>e. entityId e = eid \<and> entityType e = etype) entities \<noteq> None
         else False)"

definition deleteAt :: "nat \<Rightarrow> 'a list \<Rightarrow> 'a list" where
  "deleteAt index xs = take index xs @ drop (Suc index) xs"

definition removeNodes :: "entity list \<Rightarrow> canvas_node list \<Rightarrow> canvas_node list" where
  "removeNodes entities nodes =
     (let toRemove = filter (\<lambda>index. nodeMatches entities (nodes ! index)) [0..<length nodes]
      in fold deleteAt (rev toRemove) nodes)"

definition deleteFromCanvas :: "env \<Rightarrow> entity list \<Rightarrow> string \<Rightarrow> world \<Rightarrow> world" where
  "deleteFromCanvas env entities canvasId w =
     (case find (\<lambda>c. c_canvasId c = canvasId) (canvas_tbl (prisma w)) of
        None \<Rightarrow> w
      | Some canvas \<Rightarrow>
          (let w1 = transact canvasId (\<lambda>d. d\<lparr>y_nodes := removeNodes entities (y_nodes d)\<rparr>) w
           in snd (prisma_write
                     (relation_updateMany
                        (\<lambda>r. r_canvasId r = canvasId \<and> relationSelected entities r)
                        (\<lambda>r. r\<lparr>r_deletedAt := Some (now env)\<rparr>))
                     w1)))"

definition deleteEntityNodesFromCanvases :: "env \<Rightarrow> world \<Rightarrow> entity list \<Rightarrow> world" where
  "deleteEntityNodesFromCanvases env w entities =
     (let relations = filter (relationSelected entities) (canvasEntityRelation_tbl (prisma w));
          canvasIds = remdups (map r_canvasId relations)
      in if canvasIds = [] then w
         else fold (deleteFromCanvas env entities) canvasIds w)"

section \<open>Naming a canvas\<close>

fun joinLines :: "string list \<Rightarrow> string" where
  "joinLines [] = []"
| "joinLines [s] = s"
| "joinLines (s # t # rest) = s @ [CHR 0x0A] @ joinLines (t # rest)"

definition resultItem :: "env \<Rightarrow> db \<Rightarrow> action_result \<Rightarrow> error + content_item" where
  "resultItem env d result =
     (let steps = filter (\<lambda>s. as_resultId s = ar_resultId result \<and> as_version s = ar_version result)
                    (actionStep_tbl d)
      in case (case ar_input result of None \<Rightarrow> Inr None | Some input \<Rightarrow> parseQuery env input) of
           Inl e \<Rightarrow> Inl e
         | Inr query \<Rightarrow>
             Inr (QuestionAnswer
                    (case query of None \<Rightarrow> ar_title result | Some q \<Rightarrow> q)
                    (joinLines (map (\<lambda>s. take 500 (as_content s)) steps))))"

fun resultItems :: "env \<Rightarrow> db \<Rightarrow> action_result list \<Rightarrow> error + content_item list" where
  "resultItems env d [] = Inr []"
| "resultItems env d (r # rs) =
     (case resultItem env d r of
        Inl e \<Rightarrow> Inl e
      | Inr item \<Rightarrow>
          (case resultItems env d rs of Inl e \<Rightarrow> Inl e | Inr items \<Rightarrow> Inr (item # items)))"

definition entityItems :: "db \<Rightarrow> string \<Rightarrow> content_item list" where
  "entityItems d canvasId =
     (let relations = filter (\<lambda>r. r_canvasId r = canvasId
                                  \<and> r_entityType r \<in> {''resource'', ''document''}
                                  \<and> r_deletedAt r = None)
                        (canvasEntityRelation_tbl d);
          ids = set (map r_entityId relations);
          documents = filter (\<lambda>x. d_docId x \<in> ids) (document_tbl d);
          resources = filter (\<lambda>x. rs_resourceId x \<in> ids) (resource_tbl d)
      in map (\<lambda>x. TitlePreview (d_title x) (d_contentPreview x)) documents
         @ map (\<lambda>x. TitlePreview (rs_title x) (rs_contentPreview x)) resources)"

definition autoNameCanvas :: "env \<Rightarrow> world \<Rightarrow> user \<Rightarrow> string \<Rightarrow> bool \<Rightarrow> (error + string) \<times> world" where
  "autoNameCanvas env w usr canvasId directUpdate =
     (case find (\<lambda>c. c_canvasId c = canvasId \<and> c_uid c = uid usr \<and> c_deletedAt c = None)
             (canvas_tbl (prisma w)) of
        None \<Rightarrow> (Inl CanvasNotFoundError, w)
      | Some canvas \<Rightarrow>
     (let results = filter (\<lambda>r. ar_targetId r = canvasId \<and> ar_targetType r = ''canvas'')
                      (actionResult_tbl (prisma w))
      in case resultItems env (prisma w) results of
           Inl e \<Rightarrow> (Inl e, w)
         | Inr items \<Rightarrow>
     (let contentItems = (if items = [] then entityItems (prisma w) canvasId else items)
      in if contentItems = [] then (Inr [], w)
         else
     (let defaultModel = getDefaultModel env;
          w1 = w\<lparr>modelCalls := modelCalls w @ [GetDefaultModel, GenerateCanvasTitle contentItems]\<rparr>
      in case generateCanvasTitle env contentItems defaultModel of
           Inl e \<Rightarrow> (Inl e, w1)
         | Inr newTitle \<Rightarrow>
             if directUpdate \<and> truthy newTitle
             then (case updateCanvas env w1 usr canvasId (Some newTitle) None of
                     (Inl e, w2) \<Rightarrow> (Inl e, w2)
                   | (Inr _, w2) \<Rightarrow> (Inr newTitle, w2))
             else (Inr newTitle, w1)))))"

section \<open>Observations\<close>

definition canvasStatuses :: "db \<Rightarrow> (string \<times> string) list" where
  "canvasStatuses d = map (\<lambda>c. (c_canvasId c, c_status c)) (canvas_tbl d)"

definition recordStatuses :: "db \<Rightarrow> (string \<times> string) list" where
  "recordStatuses d = map (\<lambda>r. (dr_targetId r, dr_status r)) (duplicateRecord_tbl d)"



text \<open>The canvases that hold a live relation row to one of a list of entities.\<close>

definition nodePairs :: "canvas_node list \<Rightarrow> entity list" where
  "nodePairs nodes = map nodeEntity nodes"

definition holdsLiveRelation :: "db \<Rightarrow> string \<Rightarrow> entity list \<Rightarrow> bool" where
  "holdsLiveRelation d canvasId entities =
     list_ex (\<lambda>r. r_canvasId r = canvasId \<and> r_deletedAt r = None \<and> relationEntity r \<in> set entities)
       (canvasEntityRelation_tbl d)"

definition liveRelations :: "db \<Rightarrow> string \<Rightarrow> relation_row list" where
  "liveRelations d canvasId =
     filter (\<lambda>r. r_canvasId r = canvasId \<and> r_deletedAt r = None) (canvasEntityRelation_tbl d)"

definition relationKeys :: "db \<Rightarrow> (string \<times> string \<times> string) list" where
  "relationKeys d = map (\<lambda>r. (r_canvasId r, r_entityId r, r_entityType r)) (canvasEntityRelation_tbl d)"

section \<open>A small system to run the service on\<close>

definition env0 :: env where
  "env0 = \<lparr>genCanvasID = ''c9'', now = 100, canvasStatusDefault = ''ready'',
            relationConflict = (\<lambda>r r'. False),
            generateFileURL = (\<lambda>k. ''https://files/'' @ k),
            duplicateDocument = (\<lambda>u d t. Inr (Some (''copy-'' @ d))),
            duplicateResource = (\<lambda>u r t. Inr (Some (''copy-'' @ r))),
            duplicateActionResult = (\<lambda>u r t. Inr (Some (''copy-'' @ r))),
            settledAt = (\<lambda>index. index),
            parseQuery = (\<lambda>s. Inr None),
            getDefaultModel = None,
            generateCanvasTitle = (\<lambda>items m. Inr ''Untitled''),
            fails = (\<lambda>c. None)\<rparr>"

definition alice :: user where
  "alice = \<lparr>uid = ''u1''\<rparr>"

definition bob :: user where
  "bob = \<lparr>uid = ''u2''\<rparr>"

text \<open>A user without a row in the user table.\<close>

definition carol :: user where
  "carol = \<lparr>uid = ''u3''\<rparr>"

text \<open>The same surroundings with a document service that returns no entity.\<close>

definition env1 :: env where
  "env1 = env0\<lparr>duplicateDocument := (\<lambda>u d t. Inr None)\<rparr>"

text \<open>The same surroundings with an action-result service that throws.\<close>

definition env2 :: env where
  "env2 = env0\<lparr>duplicateActionResult := (\<lambda>u r t. Inl (ServiceError ''action result not found''))\<rparr>"

text \<open>
  The same surroundings with a document service and an action-result service that both
  throw, the tasks later in a batch settling first.
\<close>

definition env3 :: env where
  "env3 = env0\<lparr>duplicateDocument := (\<lambda>u d t. Inl (ServiceError ''document not found'')),
               duplicateActionResult := (\<lambda>u r t. Inl (ServiceError ''action result not found'')),
               settledAt := (\<lambda>index. 10 - index)\<rparr>"

definition node_d1 :: canvas_node where
  "node_d1 = \<lparr>n_id = ''n1'', n_type = ''document'',
              n_data = \<lparr>nd_entityId = ''d1'', nd_title = ''Notes'', nd_metadata = ''{}''\<rparr>\<rparr>"

definition node_m1 :: canvas_node where
  "node_m1 = \<lparr>n_id = ''n2'', n_type = ''memo'',
              n_data = \<lparr>nd_entityId = ''m1'', nd_title = ''Memo'', nd_metadata = ''{}''\<rparr>\<rparr>"

definition node_r1 :: canvas_node where
  "node_r1 = \<lparr>n_id = ''n3'', n_type = ''skillResponse'',
              n_data = \<lparr>nd_entityId = ''r1'', nd_title = ''Answer'', nd_metadata = ''{}''\<rparr>\<rparr>"

definition doc1 :: ydoc where
  "doc1 = \<lparr>y_title = ''Plan'', y_nodes = [node_d1, node_m1, node_r1],
           y_edges = [(''e1'', ''n1'', ''n3'')]\<rparr>"

definition canvas1 :: canvas_row where
  "canvas1 = \<lparr>c_uid = ''u1'', c_canvasId = ''c1'', c_title = ''Plan'', c_status = ''ready'',
              c_stateStorageKey = Some ''state/c1'', c_minimapStorageKey = None,
              c_createdAt = 1, c_updatedAt = 5, c_deletedAt = None\<rparr>"

definition canvas2 :: canvas_row where
  "canvas2 = \<lparr>c_uid = ''u1'', c_canvasId = ''c2'', c_title = ''Old'', c_status = ''ready'',
              c_stateStorageKey = Some ''state/c2'', c_minimapStorageKey = None,
              c_createdAt = 2, c_updatedAt = 6, c_deletedAt = Some 7\<rparr>"

definition canvas3 :: canvas_row where
  "canvas3 = \<lparr>c_uid = ''u1'', c_canvasId = ''c3'', c_title = ''New'', c_status = ''ready'',
              c_stateStorageKey = None, c_minimapStorageKey = Some ''map/c3'',
              c_createdAt = 3, c_updatedAt = 8, c_deletedAt = None\<rparr>"

definition relation1 :: relation_row where
  "relation1 = \<lparr>r_canvasId = ''c1'', r_entityId = ''d1'', r_entityType = ''document'',
                r_deletedAt = None\<rparr>"

definition db0 :: db where
  "db0 = \<lparr>canvas_tbl = [canvas1, canvas2, canvas3],
          duplicateRecord_tbl = [],
          user_tbl = [\<lparr>u_uid = ''u1'', u_name = Some ''alice'', u_nickname = None, u_avatar = None\<rparr>,
                      \<lparr>u_uid = ''u2'', u_name = Some ''bob'', u_nickname = None, u_avatar = None\<rparr>],
          canvasEntityRelation_tbl = [relation1],
          actionResult_tbl = [], actionStep_tbl = [], document_tbl = [], resource_tbl = []\<rparr>"

definition world0 :: world where
  "world0 = \<lparr>prisma = db0, commits = [],
             minio = [''state/c1'' \<mapsto> Encoded doc1],
             collab = (\<lambda>name. new_ydoc)(''c1'' := doc1),
             elasticsearch = Map.empty, queueAdds = [], modelCalls = []\<rparr>"

text \<open>
  Three more states: the same entity on a second canvas, several times; the document
  node of the first canvas replaced by a resource node with the same entity id; a canvas
  without relation rows that shows one document twice.
\<close>

definition relation3 :: relation_row where
  "relation3 = \<lparr>r_canvasId = ''c3'', r_entityId = ''d1'', r_entityType = ''document'',
                r_deletedAt = None\<rparr>"

definition world1 :: world where
  "world1 = world0\<lparr>prisma := db0\<lparr>canvasEntityRelation_tbl := [relation1, relation3]\<rparr>,
                   collab := (collab world0)(''c3'' :=
                     \<lparr>y_title = ''New'', y_nodes = [node_d1, node_m1, node_d1, node_r1, node_d1],
                      y_edges = []\<rparr>)\<rparr>"

definition node_x1 :: canvas_node where
  "node_x1 = \<lparr>n_id = ''n4'', n_type = ''resource'',
              n_data = \<lparr>nd_entityId = ''d1'', nd_title = ''Notes'', nd_metadata = ''{}''\<rparr>\<rparr>"

definition world2 :: world where
  "world2 = world0\<lparr>collab := (collab world0)(''c1'' := doc1\<lparr>y_nodes := [node_x1]\<rparr>)\<rparr>"

definition world3 :: world where
  "world3 = world0\<lparr>collab := (collab world0)(''c3'' :=
                     \<lparr>y_title = ''New'', y_nodes = [node_d1, node_d1], y_edges = []\<rparr>)\<rparr>"

text \<open>
  Two more states: a live relation row of a canvas that has no row in the canvas table;
  a node and a live relation row with an empty entity id.
\<close>

definition relation7 :: relation_row where
  "relation7 = \<lparr>r_canvasId = ''c7'', r_entityId = ''d1'', r_entityType = ''document'',
                r_deletedAt = None\<rparr>"

definition world5 :: world where
  "world5 = world0\<lparr>prisma := db0\<lparr>canvasEntityRelation_tbl := [relation1, relation7]\<rparr>,
                   collab := (collab world0)(''c7'' :=
                     \<lparr>y_title = ''Lost'', y_nodes = [node_d1, node_m1], y_edges = []\<rparr>)\<rparr>"

definition node_e1 :: canvas_node where
  "node_e1 = \<lparr>n_id = ''n5'', n_type = ''document'',
              n_data = \<lparr>nd_entityId = '''', nd_title = ''Draft'', nd_metadata = ''{}''\<rparr>\<rparr>"

definition relation_e1 :: relation_row where
  "relation_e1 = \<lparr>r_canvasId = ''c1'', r_entityId = '''', r_entityType = ''document'',
                  r_deletedAt = None\<rparr>"

definition world6 :: world where
  "world6 = world0\<lparr>prisma := db0\<lparr>canvasEntityRelation_tbl := [relation_e1]\<rparr>,
                   collab := (collab world0)(''c1'' := doc1\<lparr>y_nodes := [node_e1, node_m1]\<rparr>)\<rparr>"

text \<open>The first state with a document row behind the relation row of the first canvas.\<close>

definition world4 :: world where
  "world4 = world0\<lparr>prisma := db0\<lparr>document_tbl :=
              [\<lparr>d_docId = ''d1'', d_title = ''Notes'', d_contentPreview = ''First lines''\<rparr>]\<rparr>\<rparr>"

lemmas example_defs = env0_def world0_def db0_def alice_def bob_def canvas1_def canvas2_def
  canvas3_def relation1_def doc1_def node_d1_def node_m1_def node_r1_def

section \<open>Listing and reading hide deleted canvases\<close>

lemma find_unique_deleted:
  assumes "distinct (map c_canvasId cs)" and "c \<in> set cs" and "c_deletedAt c \<noteq> None"
  shows "find (\<lambda>x. c_canvasId x = c_canvasId c \<and> c_uid x = u \<and> c_deletedAt x = None) cs = None"
proof -
  have "\<And>x. x \<in> set cs \<Longrightarrow> c_canvasId x = c_canvasId c \<Longrightarrow> x = c"
    using assms(1,2) by (meson distinct_map inj_onD)
  with assms(3) show ?thesis by (auto simp: find_None_iff)
qed

lemma newest_first_sort_key:
  "sorted_wrt (\<lambda>a b. c_updatedAt b \<le> c_updatedAt a) (sort_key (\<lambda>c. - c_updatedAt c) xs)"
proof -
  have "sorted (map (\<lambda>c. - c_updatedAt c) (sort_key (\<lambda>c. - c_updatedAt c) xs))"
    by (rule sorted_sort_key)
  then show ?thesis by (simp add: sorted_map)
qed

lemma sorted_wrt_page: "sorted_wrt P xs \<Longrightarrow> sorted_wrt P (take n (drop m xs))"
  by (simp add: sorted_wrt_drop sorted_wrt_take)

text \<open>
  C7. A canvas row with \<open>deletedAt \<noteq> null\<close> is never in a page of \<open>listCanvases\<close>, and
  \<open>getCanvasDetail\<close> on its id fails with \<open>CanvasNotFoundError\<close>, for any requesting
  user (canvas ids are unique in the table). Every row of a page is a row of the table
  that belongs to the requesting user and is live, and the page is ordered by
  \<open>updatedAt\<close>, newest first. A page is returned for every page number from 1 on.
\<close>

theorem deleted_canvas_hidden:
  assumes "distinct (map c_canvasId (canvas_tbl (prisma w)))"
    and "c \<in> set (canvas_tbl (prisma w))"
    and "c_deletedAt c \<noteq> None"
  shows "getCanvasDetail env w usr (c_canvasId c) = Inl CanvasNotFoundError
       \<and> (1 \<le> page \<longrightarrow> (\<exists>rows. listCanvases env w usr page pageSize = Inr rows))
       \<and> (\<forall>rows. listCanvases env w usr page pageSize = Inr rows \<longrightarrow>
            c \<notin> fst ` set rows
          \<and> (\<forall>r \<in> set rows. fst r \<in> set (canvas_tbl (prisma w)) \<and> c_uid (fst r) = uid usr
                 \<and> c_deletedAt (fst r) = None)
          \<and> sorted_wrt (\<lambda>a b. c_updatedAt (fst b) \<le> c_updatedAt (fst a)) rows)"
proof (intro conjI allI impI)
  show "getCanvasDetail env w usr (c_canvasId c) = Inl CanvasNotFoundError"
    using find_unique_deleted[OF assms] by (simp add: getCanvasDetail_def)
next
  assume "1 \<le> page"
  then have "0 \<le> (int page - 1) * int pageSize" by (intro mult_nonneg_nonneg) auto
  then have "\<not> (int page - 1) * int pageSize < 0" by linarith
  then show "\<exists>rows. listCanvases env w usr page pageSize = Inr rows"
    by (simp add: listCanvases_def Let_def)
next
  fix rows assume r: "listCanvases env w usr page pageSize = Inr rows"
  define live where
    "live = filter (\<lambda>c. c_uid c = uid usr \<and> c_deletedAt c = None) (canvas_tbl (prisma w))"
  define pg where
    "pg = take pageSize (drop (nat ((int page - 1) * int pageSize))
            (sort_key (\<lambda>c. - c_updatedAt c) live))"
  from r have rows: "rows = map (\<lambda>c. (c, minimapUrl env c)) pg"
    by (auto simp: listCanvases_def Let_def pg_def live_def split: if_splits)
  have sub: "set pg \<subseteq> set live"
    unfolding pg_def by (metis set_take_subset set_drop_subset subset_trans set_sort)
  have fst: "fst ` set rows = set pg" unfolding rows by force
  show "c \<notin> fst ` set rows" using sub assms(3) unfolding fst live_def by auto
  show "\<forall>r \<in> set rows. fst r \<in> set (canvas_tbl (prisma w)) \<and> c_uid (fst r) = uid usr
          \<and> c_deletedAt (fst r) = None"
    using sub fst unfolding live_def by auto
  have "sorted_wrt (\<lambda>a b. c_updatedAt b \<le> c_updatedAt a) pg"
    unfolding pg_def by (intro sorted_wrt_page newest_first_sort_key)
  then show "sorted_wrt (\<lambda>a b. c_updatedAt (fst b) \<le> c_updatedAt (fst a)) rows"
    unfolding rows by (simp add: sorted_wrt_map)
qed

theorem deleted_canvas_hidden_witness:
  "distinct (map c_canvasId (canvas_tbl (prisma world0)))
   \<and> canvas2 \<in> set (canvas_tbl (prisma world0))
   \<and> c_deletedAt canvas2 \<noteq> None
   \<and> getCanvasDetail env0 world0 alice (c_canvasId canvas2) = Inl CanvasNotFoundError
   \<and> listCanvases env0 world0 alice 1 10
       = Inr [(canvas3, Some ''https://files/map/c3''), (canvas1, None)]"
  using deleted_canvas_hidden[of world0 canvas2 env0 alice 1 10]
  by (simp add: example_defs listCanvases_def getCanvasDetail_def minimapUrl_def truthy_def)

section \<open>A new canvas reads back empty\<close>

lemma find_append_new:
  assumes "\<forall>x \<in> set xs. \<not> P x" and "P y"
  shows "find P (xs @ [y]) = Some y"
  using assms by (induction xs) auto

text \<open>
  C8. When \<open>createCanvas\<close> for a user and a title \<open>T\<close> succeeds, \<open>getCanvasRawData\<close> for
  that user on the id of the new canvas returns the title \<open>T\<close>, no nodes and no edges.
\<close>

theorem createCanvas_reads_back_empty:
  assumes "createCanvas env w usr T = (Inr canvas, w')"
  shows "\<exists>raw. getCanvasRawData env w' usr (c_canvasId canvas) = Inr raw
           \<and> raw_title raw = T \<and> raw_nodes raw = [] \<and> raw_edges raw = []"
proof -
  define cid where "cid = genCanvasID env"
  define key where "key = ''state/'' @ cid"
  define row where "row = \<lparr>c_uid = uid usr, c_canvasId = cid, c_title = T,
                    c_status = canvasStatusDefault env,
                    c_stateStorageKey = Some key, c_minimapStorageKey = None,
                    c_createdAt = now env, c_updatedAt = now env, c_deletedAt = None\<rparr>"
  from assms have fresh: "cid \<notin> c_canvasId ` set (canvas_tbl (prisma w))"
    and canvas: "canvas = row"
    and tbl: "canvas_tbl (prisma w') = canvas_tbl (prisma w) @ [row]"
    and obj: "minio w' key = Some (Encoded (new_ydoc\<lparr>y_title := T\<rparr>))"
    unfolding createCanvas_def cid_def key_def row_def
    by (auto simp: Let_def prisma_write_def canvas_create_def saveCanvasYDoc_def putObject_def
          upsertCanvasIndex_def remote_def split: if_splits option.splits sum.splits prod.splits)
  have "find (\<lambda>c. c_canvasId c = cid \<and> c_uid c = uid usr \<and> c_deletedAt c = None)
          (canvas_tbl (prisma w')) = Some row"
    unfolding tbl using fresh by (intro find_append_new) (auto simp: row_def)
  moreover have "getCanvasYDoc w' (c_stateStorageKey row) = Some (new_ydoc\<lparr>y_title := T\<rparr>)"
    using obj by (simp add: getCanvasYDoc_def row_def readObject_def truthy_def key_def)
  ultimately show ?thesis
    unfolding canvas by (simp add: getCanvasRawData_def Let_def row_def new_ydoc_def)
qed

theorem createCanvas_reads_back_empty_witness:
  "fst (createCanvas env0 world0 alice ''T'')
     = Inr \<lparr>c_uid = ''u1'', c_canvasId = ''c9'', c_title = ''T'', c_status = ''ready'',
            c_stateStorageKey = Some ''state/c9'', c_minimapStorageKey = None,
            c_createdAt = 100, c_updatedAt = 100, c_deletedAt = None\<rparr>
   \<and> (\<exists>raw. getCanvasRawData env0 (snd (createCanvas env0 world0 alice ''T'')) alice ''c9'' = Inr raw
           \<and> raw_title raw = ''T'' \<and> raw_nodes raw = [] \<and> raw_edges raw = [])"
proof -
  have run: "fst (createCanvas env0 world0 alice ''T'')
     = Inr \<lparr>c_uid = ''u1'', c_canvasId = ''c9'', c_title = ''T'', c_status = ''ready'',
            c_stateStorageKey = Some ''state/c9'', c_minimapStorageKey = None,
            c_createdAt = 100, c_updatedAt = 100, c_deletedAt = None\<rparr>"
    by (simp add: example_defs createCanvas_def Let_def prisma_write_def canvas_create_def
          saveCanvasYDoc_def putObject_def upsertCanvasIndex_def remote_def)
  then have "createCanvas env0 world0 alice ''T''
     = (Inr \<lparr>c_uid = ''u1'', c_canvasId = ''c9'', c_title = ''T'', c_status = ''ready'',
            c_stateStorageKey = Some ''state/c9'', c_minimapStorageKey = None,
            c_createdAt = 100, c_updatedAt = 100, c_deletedAt = None\<rparr>,
        snd (createCanvas env0 world0 alice ''T''))"
    by (metis prod.collapse)
  from createCanvas_reads_back_empty[OF this] run show ?thesis by simp
qed

section \<open>Duplication\<close>

subsection \<open>The relational store during a duplication\<close>

lemma fold_max_ge: "a \<le> fold max xs (a::nat)"
  by (induction xs arbitrary: a) (auto intro: order_trans[OF max.cobounded2])

lemma fold_max_mem: "x \<in> set xs \<Longrightarrow> x \<le> fold max xs (a::nat)"
proof (induction xs arbitrary: a)
  case Nil
  then show ?case by simp
next
  case (Cons y ys)
  show ?case
  proof (cases "x = y")
    case True
    have "y \<le> max y a" by simp
    also have "\<dots> \<le> fold max ys (max y a)" by (rule fold_max_ge)
    finally show ?thesis using True by simp
  next
    case False
    with Cons show ?thesis by simp
  qed
qed

lemma next_pk_fresh: "r \<in> set rs \<Longrightarrow> dr_pk r < next_pk rs"
  unfolding next_pk_def using fold_max_mem[of "dr_pk r" "map dr_pk rs" 0] by auto

lemma old_records_untouched:
  "map (\<lambda>x. if dr_pk x = next_pk rs then f x else x) rs = rs"
  by (rule map_idI) (use next_pk_fresh in fastforce)

lemma old_canvases_untouched:
  assumes "cid \<notin> c_canvasId ` set cs"
  shows "map (\<lambda>x. if c_canvasId x = cid then f x else x) cs = cs"
  by (rule map_idI) (use assms in force)

lemma find_Some_mem: "find P xs = Some x \<Longrightarrow> x \<in> set xs \<and> P x"
  by (induction xs) (auto split: if_splits)

lemma find_append_old: "find P xs = Some x \<Longrightarrow> find P (xs @ ys) = Some x"
  by (induction xs) auto

lemma find_by_unique_key:
  assumes "distinct (map key xs)" and "x \<in> set xs" and "P x" and "\<And>y. P y \<Longrightarrow> key y = key x"
  shows "find P xs = Some x"
  using assms
proof (induction xs)
  case Nil
  from Nil.prems(2) show ?case by simp
next
  case (Cons a as)
  show ?case
  proof (cases "a = x")
    case True
    with Cons.prems(3) show ?thesis by simp
  next
    case False
    with Cons.prems have x: "x \<in> set as" by simp
    then have "key x \<in> key ` set as" by blast
    with Cons.prems(1) have "key a \<noteq> key x" by auto
    with Cons.prems(4) have "\<not> P a" by blast
    moreover from Cons.prems(1) have "distinct (map key as)" by simp
    then have "find P as = Some x"
      by (rule Cons.IH[OF _ x Cons.prems(3,4)])
    ultimately show ?thesis by simp
  qed
qed

lemma find_user:
  assumes "u \<in> set (map u_uid us)"
  shows "\<exists>urow. find (\<lambda>x. u_uid x = u) us = Some urow"
  using assms by (cases "find (\<lambda>x. u_uid x = u) us") (auto simp: find_None_iff)

lemma beforeCopy_simps:
  "prisma (beforeCopy env w usr t cid) = withRecord env usr cid (withTarget env usr t (prisma w))"
  "commits (beforeCopy env w usr t cid)
     = commits w @ [withTarget env usr t (prisma w),
                    withRecord env usr cid (withTarget env usr t (prisma w))]"
  "minio (beforeCopy env w usr t cid) = minio w"
  by (simp_all add: beforeCopy_def Let_def)

lemma withRecord_simps:
  "canvas_tbl (withRecord env usr cid d) = canvas_tbl d"
  "duplicateRecord_tbl (withRecord env usr cid d)
     = duplicateRecord_tbl d @ [pendingRecord env usr cid d]"
  "user_tbl (withRecord env usr cid d) = user_tbl d"
  by (simp_all add: withRecord_def)

lemma withTarget_simps:
  "canvas_tbl (withTarget env usr t d) = canvas_tbl d @ [newCanvasRow env usr t]"
  "duplicateRecord_tbl (withTarget env usr t d) = duplicateRecord_tbl d"
  "user_tbl (withTarget env usr t d) = user_tbl d"
  by (simp_all add: withTarget_def)

lemma duplicateCanvas_runs_body:
  assumes src: "find (sourceWhere usr canvasId chk) (canvas_tbl (prisma w)) = Some canvas"
    and fresh: "genCanvasID env \<notin> set (map c_canvasId (canvas_tbl (prisma w)))"
  shows "duplicateCanvas env w usr title canvasId dup chk =
     (let newTitle = newTitleOf title canvas;
          rec = pendingRecord env usr canvasId (withTarget env usr newTitle (prisma w))
      in case priv_duplicateCanvas env (beforeCopy env w usr newTitle canvasId)
                (copyJob env usr newTitle canvasId dup rec) of
           (Inl e, w3) \<Rightarrow>
             (case prisma_write
                     (duplicateRecord_update (dr_pk rec) (\<lambda>r. r\<lparr>dr_status := ''failed''\<rparr>)) w3 of
                (Inl e', w4) \<Rightarrow> (Inl e', w4)
              | (Inr _, w4) \<Rightarrow> (Inl e, w4))
         | (Inr _, w3) \<Rightarrow> (Inr (newCanvasRow env usr newTitle), w3))"
proof -
  have id: "c_canvasId (newCanvasRow env usr t) = genCanvasID env" for t
    by (simp add: newCanvasRow_def)
  show ?thesis
    unfolding duplicateCanvas_def src
    using fresh
    by (simp add: Let_def prisma_write_def canvas_create_def duplicateRecord_create_def id
        beforeCopy_def withTarget_def withRecord_def split: prod.splits sum.splits)
qed

lemma duplicateCanvas_copyBody:
  assumes src: "find (sourceWhere usr canvasId chk) (canvas_tbl (prisma w)) = Some canvas"
    and fresh: "genCanvasID env \<notin> set (map c_canvasId (canvas_tbl (prisma w)))"
  shows "duplicateCanvas env w usr title canvasId dup chk =
     (case copyBody env w usr title canvas canvasId dup of
           (Inl e, w3) \<Rightarrow>
             (case prisma_write
                     (duplicateRecord_update (next_pk (duplicateRecord_tbl (prisma w)))
                        (\<lambda>r. r\<lparr>dr_status := ''failed''\<rparr>)) w3 of
                (Inl e', w4) \<Rightarrow> (Inl e', w4)
              | (Inr _, w4) \<Rightarrow> (Inl e, w4))
         | (Inr _, w3) \<Rightarrow> (Inr (newCanvasRow env usr (newTitleOf title canvas)), w3))"
  unfolding duplicateCanvas_runs_body[OF src fresh] copyBody_def
  by (simp add: Let_def pendingRecord_def withTarget_def split: prod.splits sum.splits)

subsection \<open>The copy body\<close>

lemma remote_db:
  assumes "remote env call eff w = (r, w')"
    and "\<And>v. prisma (eff v) = prisma v" and "\<And>v. commits (eff v) = commits v"
  shows "prisma w' = prisma w \<and> commits w' = commits w"
  using assms by (auto simp: remote_def split: option.splits)

lemma putObject_db:
  "putObject env k b w = (r, w') \<Longrightarrow> prisma w' = prisma w \<and> commits w' = commits w"
  unfolding putObject_def by (erule remote_db) auto

lemma prisma_write_Inl: "prisma_write op w = (Inl e, w') \<Longrightarrow> w' = w"
  by (auto simp: prisma_write_def split: sum.splits)

lemma prisma_write_Inr:
  assumes "prisma_write op w = (Inr u, w')"
  shows "\<exists>d. op (prisma w) = Inr d \<and> w' = w\<lparr>prisma := d, commits := commits w @ [d]\<rparr>"
  using assms by (auto simp: prisma_write_def split: sum.splits)

lemma priv_fail_keeps_db:
  assumes "priv_duplicateCanvas env w job = (Inl e, w')"
  shows "prisma w' = prisma w \<and> commits w' = commits w"
  using assms unfolding priv_duplicateCanvas_def
  by (auto simp: Let_def split: option.splits sum.splits prod.splits if_splits
      dest!: putObject_db remote_db prisma_write_Inl)

lemma priv_success:
  assumes run: "priv_duplicateCanvas env w job = (Inr u, w')"
    and usr: "find (\<lambda>u. u_uid u = job_uid job) (user_tbl (prisma w)) = Some usr"
  shows "\<exists>src doc nodes d.
           find (\<lambda>c. c_canvasId c = job_sourceCanvasId job \<and> c_deletedAt c = None)
             (canvas_tbl (prisma w)) = Some src
         \<and> (if truthy_opt (c_stateStorageKey src)
             then readObject w (the (c_stateStorageKey src)) else Inr new_ydoc) = Inr doc
         \<and> (if job_duplicateEntities job
             then duplicateEntities env usr (job_targetCanvasId job) (y_nodes doc)
             else Inr (y_nodes doc)) = Inr nodes
         \<and> then_db (canvas_update (\<lambda>c. c_canvasId c = job_targetCanvasId job)
                       (\<lambda>c. c\<lparr>c_status := ''ready''\<rparr>))
                    (duplicateRecord_update (dr_pk (job_dupRecord job))
                       (\<lambda>r. r\<lparr>dr_status := ''finish''\<rparr>)) (prisma w) = Inr d
         \<and> prisma w' = d \<and> commits w' = commits w @ [d]
         \<and> minio w' = (minio w)(''state/'' @ job_targetCanvasId job \<mapsto>
                           Encoded (doc\<lparr>y_title := job_title job, y_nodes := nodes\<rparr>))"
proof -
  note body = run[unfolded priv_duplicateCanvas_def usr option.case]
  obtain src where src: "find (\<lambda>c. c_canvasId c = job_sourceCanvasId job \<and> c_deletedAt c = None)
             (canvas_tbl (prisma w)) = Some src"
    using body by (cases "find (\<lambda>c. c_canvasId c = job_sourceCanvasId job \<and> c_deletedAt c = None)
             (canvas_tbl (prisma w))") auto
  note body = body[unfolded src option.case]
  obtain doc where doc: "(if truthy_opt (c_stateStorageKey src)
             then readObject w (the (c_stateStorageKey src)) else Inr new_ydoc) = Inr doc"
    using body by (cases "(if truthy_opt (c_stateStorageKey src)
             then readObject w (the (c_stateStorageKey src)) else Inr new_ydoc)") auto
  note body = body[unfolded doc sum.case]
  obtain nodes where nodes: "(if job_duplicateEntities job
             then duplicateEntities env usr (job_targetCanvasId job) (y_nodes doc)
             else Inr (y_nodes doc)) = Inr nodes"
    using body by (cases "(if job_duplicateEntities job
             then duplicateEntities env usr (job_targetCanvasId job) (y_nodes doc)
             else Inr (y_nodes doc))") auto
  note body = body[unfolded nodes sum.case]
  have files: "(if c_uid src \<noteq> u_uid usr
            then remote env (DuplicateFilesNoCopy (job_sourceCanvasId job) (c_uid src)
                               (job_targetCanvasId job)) (\<lambda>w. w) w
            else (Inr (), w)) = (Inr (), w)"
    using body by (auto simp: remote_def split: if_splits option.splits)
  note body = body[unfolded files prod.case sum.case Let_def]
  define w2 where "w2 = w\<lparr>minio := (minio w)(''state/'' @ job_targetCanvasId job \<mapsto>
                           Encoded (doc\<lparr>y_title := job_title job, y_nodes := nodes\<rparr>))\<rparr>"
  have put: "putObject env (''state/'' @ job_targetCanvasId job)
               (Encoded (doc\<lparr>y_title := job_title job, y_nodes := nodes\<rparr>)) w = (Inr (), w2)"
    using body by (auto simp: putObject_def remote_def w2_def split: option.splits)
  note body = body[unfolded put prod.case sum.case]
  from prisma_write_Inr[OF body] obtain d where
    "then_db (canvas_update (\<lambda>c. c_canvasId c = job_targetCanvasId job)
                       (\<lambda>c. c\<lparr>c_status := ''ready''\<rparr>))
                    (duplicateRecord_update (dr_pk (job_dupRecord job))
                       (\<lambda>r. r\<lparr>dr_status := ''finish''\<rparr>)) (prisma w2) = Inr d"
    and "w' = w2\<lparr>prisma := d, commits := commits w2 @ [d]\<rparr>"
    by blast
  with src doc nodes show ?thesis by (simp add: w2_def)
qed

lemma duplicateEntity_forkedNode:
  assumes "\<not> isl (duplicateEntity env usr t n)"
  shows "projr (duplicateEntity env usr t n) = forkedNode env (u_uid usr) t n"
  using assms
  by (auto simp: duplicateEntity_def forkedNode_def forkedId_def Let_def
      split: sum.splits option.splits if_splits)

lemma duplicateEntities_map:
  assumes "duplicateEntities env usr t nodes = Inr nodes'"
  shows "nodes' = map (forkedNode env (u_uid usr) t) nodes"
proof -
  define settled where "settled = map (duplicateEntity env usr t) nodes"
  have none: "filter (\<lambda>index. isl (settled ! index)) [0..<length nodes] = []"
    and res: "nodes' = map projr settled"
    using assms unfolding duplicateEntities_def Let_def settled_def[symmetric]
    by (auto split: if_splits)
  have ok: "\<not> isl (duplicateEntity env usr t n)" if "n \<in> set nodes" for n
  proof -
    from that obtain i where i: "i < length nodes" "nodes ! i = n"
      by (auto simp: in_set_conv_nth)
    from none i(1) have "\<not> isl (settled ! i)"
      by (auto simp: filter_empty_conv)
    with i show ?thesis by (simp add: settled_def)
  qed
  show ?thesis
    unfolding res settled_def using ok by (simp add: duplicateEntity_forkedNode)
qed

lemma duplicateEntities_rejected:
  assumes "duplicateEntities env usr t nodes = Inl e"
  shows "\<exists>i < length nodes. duplicateEntity env usr t (nodes ! i) = Inl e"
proof -
  define settled where "settled = map (duplicateEntity env usr t) nodes"
  define rejected where "rejected = filter (\<lambda>index. isl (settled ! index)) [0..<length nodes]"
  have some: "rejected \<noteq> []"
    and res: "e = projl (settled ! arg_min_list (settledAt env) rejected)"
    using assms unfolding duplicateEntities_def Let_def settled_def[symmetric] rejected_def[symmetric]
    by (auto split: if_splits)
  from arg_min_list_in[OF some, of "settledAt env"]
  have "arg_min_list (settledAt env) rejected < length nodes"
    and "isl (settled ! arg_min_list (settledAt env) rejected)"
    by (simp_all add: rejected_def)
  with res show ?thesis
    by (auto simp: settled_def intro!: exI[of _ "arg_min_list (settledAt env) rejected"])
qed

text \<open>
  Which error a batch is rejected with depends on the order in which its tasks settle:
  with two throwing services, the batch over the same nodes raises the error of the
  document node when the tasks settle in list order, and that of the skillResponse node
  when the later tasks settle first.
\<close>

lemma duplicateEntities_first_rejection:
  "duplicateEntities (env3\<lparr>settledAt := (\<lambda>index. index)\<rparr>)
      \<lparr>u_uid = ''u1'', u_name = None, u_nickname = None, u_avatar = None\<rparr> ''c9''
      [node_d1, node_m1, node_r1] = Inl (ServiceError ''document not found'')"
  "duplicateEntities env3
      \<lparr>u_uid = ''u1'', u_name = None, u_nickname = None, u_avatar = None\<rparr> ''c9''
      [node_d1, node_m1, node_r1] = Inl (ServiceError ''action result not found'')"
  by (simp_all add: duplicateEntities_def duplicateEntity_def Let_def env3_def env0_def
      node_d1_def node_m1_def node_r1_def)

lemma forkedNode_keeps:
  "n_id (forkedNode env r t n) = n_id n"
  "n_type (forkedNode env r t n) = n_type n"
  "nd_title (n_data (forkedNode env r t n)) = nd_title (n_data n)"
  "nd_metadata (n_data (forkedNode env r t n)) = nd_metadata (n_data n)"
  "nd_entityId (n_data (forkedNode env r t n))
     = (case forkedId env r t n of None \<Rightarrow> nd_entityId (n_data n) | Some newId \<Rightarrow> newId)"
  by (simp_all add: forkedNode_def setEntityId_def split: option.splits)

subsection \<open>The two ways a duplication ends\<close>

lemma duplicateCanvas_failed:
  assumes src: "find (sourceWhere usr canvasId chk) (canvas_tbl (prisma w)) = Some canvas"
    and fresh: "genCanvasID env \<notin> set (map c_canvasId (canvas_tbl (prisma w)))"
    and run: "copyBody env w usr title canvas canvasId dup = (Inl e, w3)"
  shows "fst (duplicateCanvas env w usr title canvasId dup chk) = Inl e"
    and "prisma (snd (duplicateCanvas env w usr title canvasId dup chk))
           = failedDb env usr (newTitleOf title canvas) canvasId (prisma w)"
    and "commits (snd (duplicateCanvas env w usr title canvasId dup chk))
           = commits w @ [withTarget env usr (newTitleOf title canvas) (prisma w),
                          withRecord env usr canvasId
                            (withTarget env usr (newTitleOf title canvas) (prisma w)),
                          failedDb env usr (newTitleOf title canvas) canvasId (prisma w)]"
proof -
  define t where "t = newTitleOf title canvas"
  define rec where "rec = pendingRecord env usr canvasId (prisma w)"
  have pk: "dr_pk rec = next_pk (duplicateRecord_tbl (prisma w))"
    by (simp add: rec_def pendingRecord_def)
  have keep: "prisma w3 = withRecord env usr canvasId (withTarget env usr t (prisma w))"
    "commits w3 = commits w @ [withTarget env usr t (prisma w),
        withRecord env usr canvasId (withTarget env usr t (prisma w))]"
    using priv_fail_keeps_db[OF run[unfolded copyBody_def Let_def]]
    by (simp_all add: beforeCopy_simps t_def)
  have upd: "duplicateRecord_update (next_pk (duplicateRecord_tbl (prisma w)))
                 (\<lambda>r. r\<lparr>dr_status := ''failed''\<rparr>) (prisma w3)
       = Inr (failedDb env usr t canvasId (prisma w))"
    using pk unfolding keep
    by (simp add: duplicateRecord_update_def withRecord_def withTarget_def failedDb_def
        old_records_untouched rec_def pendingRecord_def)
  have all: "duplicateCanvas env w usr title canvasId dup chk
      = (Inl e, w3\<lparr>prisma := failedDb env usr t canvasId (prisma w),
                   commits := commits w3 @ [failedDb env usr t canvasId (prisma w)]\<rparr>)"
    unfolding duplicateCanvas_copyBody[OF src fresh] run
    by (simp add: prisma_write_def upd)
  show "fst (duplicateCanvas env w usr title canvasId dup chk) = Inl e"
    by (simp add: all)
  show "prisma (snd (duplicateCanvas env w usr title canvasId dup chk))
           = failedDb env usr (newTitleOf title canvas) canvasId (prisma w)"
    by (simp add: all t_def)
  show "commits (snd (duplicateCanvas env w usr title canvasId dup chk))
           = commits w @ [withTarget env usr (newTitleOf title canvas) (prisma w),
                          withRecord env usr canvasId
                            (withTarget env usr (newTitleOf title canvas) (prisma w)),
                          failedDb env usr (newTitleOf title canvas) canvasId (prisma w)]"
    by (simp add: all keep t_def)
qed

lemma finish_transaction:
  assumes fresh: "genCanvasID env \<notin> set (map c_canvasId (canvas_tbl d))"
  shows "then_db (canvas_update (\<lambda>c. c_canvasId c = genCanvasID env) (\<lambda>c. c\<lparr>c_status := ''ready''\<rparr>))
           (duplicateRecord_update (next_pk (duplicateRecord_tbl d)) (\<lambda>r. r\<lparr>dr_status := ''finish''\<rparr>))
           (withRecord env usr cid (withTarget env usr t d))
         = Inr (finishedDb env usr t cid d)"
proof -
  have id: "c_canvasId (newCanvasRow env usr t) = genCanvasID env"
    by (simp add: newCanvasRow_def)
  from fresh have old: "genCanvasID env \<notin> c_canvasId ` set (canvas_tbl d)" by simp
  show ?thesis
    using id
    by (simp add: then_db_def canvas_update_def duplicateRecord_update_def withRecord_def
        withTarget_def finishedDb_def pendingRecord_def old_records_untouched
        old_canvases_untouched[OF old])
qed

lemma duplicateCanvas_finished:
  assumes src: "find (sourceWhere usr canvasId chk) (canvas_tbl (prisma w)) = Some canvas"
    and fresh: "genCanvasID env \<notin> set (map c_canvasId (canvas_tbl (prisma w)))"
    and usr: "find (\<lambda>u. u_uid u = uid usr) (user_tbl (prisma w)) = Some urow"
    and run: "copyBody env w usr title canvas canvasId dup = (Inr u, w3)"
  shows "duplicateCanvas env w usr title canvasId dup chk
           = (Inr (newCanvasRow env usr (newTitleOf title canvas)), w3)"
    and "prisma w3 = finishedDb env usr (newTitleOf title canvas) canvasId (prisma w)"
    and "commits w3
           = commits w @ [withTarget env usr (newTitleOf title canvas) (prisma w),
                          withRecord env usr canvasId
                            (withTarget env usr (newTitleOf title canvas) (prisma w)),
                          finishedDb env usr (newTitleOf title canvas) canvasId (prisma w)]"
proof -
  define t where "t = newTitleOf title canvas"
  define job where "job = copyJob env usr t canvasId dup
              (pendingRecord env usr canvasId (withTarget env usr t (prisma w)))"
  have run': "priv_duplicateCanvas env (beforeCopy env w usr t canvasId) job = (Inr u, w3)"
    using run by (simp add: copyBody_def Let_def t_def job_def)
  have usr': "find (\<lambda>u. u_uid u = job_uid job) (user_tbl (prisma (beforeCopy env w usr t canvasId)))
               = Some urow"
    using usr by (simp add: job_def copyJob_def beforeCopy_simps withRecord_simps withTarget_simps)
  from priv_success[OF run' usr'] obtain d where
    tx: "then_db (canvas_update (\<lambda>c. c_canvasId c = job_targetCanvasId job)
                       (\<lambda>c. c\<lparr>c_status := ''ready''\<rparr>))
                    (duplicateRecord_update (dr_pk (job_dupRecord job))
                       (\<lambda>r. r\<lparr>dr_status := ''finish''\<rparr>))
                    (prisma (beforeCopy env w usr t canvasId)) = Inr d"
    and db: "prisma w3 = d" and cm: "commits w3 = commits (beforeCopy env w usr t canvasId) @ [d]"
    by blast
  have "d = finishedDb env usr t canvasId (prisma w)"
    using tx finish_transaction[OF fresh, of usr canvasId t]
    by (simp add: job_def copyJob_def beforeCopy_simps pendingRecord_def withTarget_simps)
  with db cm show "prisma w3 = finishedDb env usr (newTitleOf title canvas) canvasId (prisma w)"
    and "commits w3
           = commits w @ [withTarget env usr (newTitleOf title canvas) (prisma w),
                          withRecord env usr canvasId
                            (withTarget env usr (newTitleOf title canvas) (prisma w)),
                          finishedDb env usr (newTitleOf title canvas) canvasId (prisma w)]"
    by (simp_all add: beforeCopy_simps t_def)
  show "duplicateCanvas env w usr title canvasId dup chk
           = (Inr (newCanvasRow env usr (newTitleOf title canvas)), w3)"
    unfolding duplicateCanvas_copyBody[OF src fresh] run by simp
qed

lemmas duplication_defs = duplicateCanvas_def priv_duplicateCanvas_def copyBody_def beforeCopy_def
  withTarget_def withRecord_def failedDb_def finishedDb_def pendingRecord_def newCanvasRow_def
  newTitleOf_def copyJob_def sourceWhere_def prisma_write_def canvas_create_def canvas_update_def
  duplicateRecord_create_def duplicateRecord_update_def then_db_def next_pk_def putObject_def
  remote_def readObject_def truthy_def truthy_opt_def duplicateEntities_def duplicateEntity_def
  setEntityId_def Let_def
  canvasStatuses_def recordStatuses_def nodePairs_def nodeEntity_def

subsection \<open>A failing copy\<close>

text \<open>
  C1. Take a call of \<open>duplicateCanvas\<close> that reaches its copy body (the source is found and
  the new canvas id is free). Whatever error \<open>e\<close> the copy body raises, the call raises the
  same \<open>e\<close>; the DuplicateRecord it created is in the table with status \<open>failed\<close>, every
  older record as it was; and the canvas table is the old one followed by the target row,
  which still has the status \<open>duplicating\<close> it was inserted with.
\<close>

theorem copy_failure_is_recorded:
  assumes src: "find (sourceWhere usr canvasId chk) (canvas_tbl (prisma w)) = Some canvas"
    and fresh: "genCanvasID env \<notin> set (map c_canvasId (canvas_tbl (prisma w)))"
    and body: "fst (copyBody env w usr title canvas canvasId dup) = Inl e"
  shows "fst (duplicateCanvas env w usr title canvasId dup chk) = Inl e
       \<and> duplicateRecord_tbl (prisma (snd (duplicateCanvas env w usr title canvasId dup chk)))
           = duplicateRecord_tbl (prisma w)
             @ [(pendingRecord env usr canvasId (prisma w))\<lparr>dr_status := ''failed''\<rparr>]
       \<and> canvas_tbl (prisma (snd (duplicateCanvas env w usr title canvasId dup chk)))
           = canvas_tbl (prisma w) @ [newCanvasRow env usr (newTitleOf title canvas)]
       \<and> c_canvasId (newCanvasRow env usr (newTitleOf title canvas)) = genCanvasID env
       \<and> c_status (newCanvasRow env usr (newTitleOf title canvas)) = ''duplicating''
       \<and> dr_targetId (pendingRecord env usr canvasId (prisma w)) = genCanvasID env"
proof -
  obtain w3 where run: "copyBody env w usr title canvas canvasId dup = (Inl e, w3)"
    using body by (metis prod.collapse)
  from duplicateCanvas_failed(1,2)[OF src fresh run] show ?thesis
    by (simp add: failedDb_def withTarget_def newCanvasRow_def pendingRecord_def)
qed

theorem copy_failure_is_recorded_witness:
  "find (sourceWhere alice ''c1'' True) (canvas_tbl (prisma world0)) = Some canvas1
   \<and> genCanvasID env2 \<notin> set (map c_canvasId (canvas_tbl (prisma world0)))
   \<and> fst (copyBody env2 world0 alice None canvas1 ''c1'' True)
       = Inl (ServiceError ''action result not found'')
   \<and> fst (duplicateCanvas env2 world0 alice None ''c1'' True True)
       = Inl (ServiceError ''action result not found'')
   \<and> recordStatuses (prisma (snd (duplicateCanvas env2 world0 alice None ''c1'' True True)))
       = [(''c9'', ''failed'')]
   \<and> canvasStatuses (prisma (snd (duplicateCanvas env2 world0 alice None ''c1'' True True)))
       = [(''c1'', ''ready''), (''c2'', ''ready''), (''c3'', ''ready''), (''c9'', ''duplicating'')]"
proof -
  have src: "find (sourceWhere alice ''c1'' True) (canvas_tbl (prisma world0)) = Some canvas1"
    by (simp add: example_defs env2_def sourceWhere_def)
  have fresh: "genCanvasID env2 \<notin> set (map c_canvasId (canvas_tbl (prisma world0)))"
    by (simp add: example_defs env2_def)
  have body: "fst (copyBody env2 world0 alice None canvas1 ''c1'' True)
       = Inl (ServiceError ''action result not found'')"
    by (simp add: example_defs env2_def duplication_defs)
  from copy_failure_is_recorded[OF src fresh body] src fresh body
  show ?thesis
    by (simp add: canvasStatuses_def recordStatuses_def)
       (simp add: example_defs env2_def pendingRecord_def newCanvasRow_def newTitleOf_def truthy_opt_def next_pk_def)
qed

subsection \<open>The life of a DuplicateRecord\<close>

lemma duplicateCanvas_no_user:
  assumes src: "find (sourceWhere usr canvasId chk) (canvas_tbl (prisma w)) = Some canvas"
    and fresh: "genCanvasID env \<notin> set (map c_canvasId (canvas_tbl (prisma w)))"
    and nouser: "find (\<lambda>u. u_uid u = uid usr) (user_tbl (prisma w)) = None"
  shows "duplicateCanvas env w usr title canvasId dup chk
           = (Inr (newCanvasRow env usr (newTitleOf title canvas)),
              beforeCopy env w usr (newTitleOf title canvas) canvasId)"
proof -
  have "copyBody env w usr title canvas canvasId dup
          = (Inr (), beforeCopy env w usr (newTitleOf title canvas) canvasId)"
    using nouser
    by (simp add: copyBody_def priv_duplicateCanvas_def Let_def copyJob_def beforeCopy_simps
        withRecord_simps withTarget_simps)
  then show ?thesis
    unfolding duplicateCanvas_copyBody[OF src fresh] by simp
qed

lemma duplicateCanvas_history:
  assumes src: "find (sourceWhere usr canvasId chk) (canvas_tbl (prisma w)) = Some canvas"
    and fresh: "genCanvasID env \<notin> set (map c_canvasId (canvas_tbl (prisma w)))"
  shows "\<exists>rest. commits (snd (duplicateCanvas env w usr title canvasId dup chk))
              = commits w @ withTarget env usr (newTitleOf title canvas) (prisma w)
                  # withRecord env usr canvasId
                      (withTarget env usr (newTitleOf title canvas) (prisma w))
                  # rest"
proof (cases "find (\<lambda>u. u_uid u = uid usr) (user_tbl (prisma w))")
  case None
  show ?thesis
    unfolding duplicateCanvas_no_user[OF src fresh None] by (simp add: beforeCopy_simps)
next
  case (Some urow)
  obtain r w3 where run: "copyBody env w usr title canvas canvasId dup = (r, w3)"
    by (cases "copyBody env w usr title canvas canvasId dup")
  show ?thesis
  proof (cases r)
    case (Inl e)
    from duplicateCanvas_failed(3)[OF src fresh run[unfolded Inl]] show ?thesis by simp
  next
    case (Inr v)
    from duplicateCanvas_finished[OF src fresh Some run[unfolded Inr]] show ?thesis by simp
  qed
qed

lemma duplicateCanvas_ends:
  assumes src: "find (sourceWhere usr canvasId chk) (canvas_tbl (prisma w)) = Some canvas"
    and fresh: "genCanvasID env \<notin> set (map c_canvasId (canvas_tbl (prisma w)))"
    and usr: "uid usr \<in> set (map u_uid (user_tbl (prisma w)))"
  shows "\<exists>d3. commits (snd (duplicateCanvas env w usr title canvasId dup chk))
              = commits w @ [withTarget env usr (newTitleOf title canvas) (prisma w),
                   withRecord env usr canvasId
                     (withTarget env usr (newTitleOf title canvas) (prisma w)),
                   d3]
          \<and> prisma (snd (duplicateCanvas env w usr title canvasId dup chk)) = d3
          \<and> ((fst (duplicateCanvas env w usr title canvasId dup chk)
                 = Inr (newCanvasRow env usr (newTitleOf title canvas))
               \<and> d3 = finishedDb env usr (newTitleOf title canvas) canvasId (prisma w))
             \<or> ((\<exists>e. fst (duplicateCanvas env w usr title canvasId dup chk) = Inl e)
               \<and> d3 = failedDb env usr (newTitleOf title canvas) canvasId (prisma w)))"
proof -
  obtain urow where u: "find (\<lambda>x. u_uid x = uid usr) (user_tbl (prisma w)) = Some urow"
    using find_user[OF usr] by blast
  obtain r w3 where run: "copyBody env w usr title canvas canvasId dup = (r, w3)"
    by (cases "copyBody env w usr title canvas canvasId dup")
  show ?thesis
  proof (cases r)
    case (Inl e)
    from duplicateCanvas_failed[OF src fresh run[unfolded Inl]] show ?thesis by auto
  next
    case (Inr v)
    from duplicateCanvas_finished[OF src fresh u run[unfolded Inr]] show ?thesis by simp
  qed
qed

text \<open>
  C2 as the code has it. The claim is that the DuplicateRecord is created in one
  transaction with the target row and that every run moves it exactly once from
  \<open>pending\<close> to \<open>finish\<close> or \<open>failed\<close>. In the code the two rows are two writes.
  What holds, for every call that reaches the copy body (the source is found and the new
  canvas id is free), whoever the user is: the history of the store begins with two
  snapshots of the call, the first with the target row appended (status \<open>duplicating\<close>)
  and the record table as it was, the second with the record appended as well (status
  \<open>pending\<close>). When moreover the user has a row in the user table, the call adds exactly
  one more snapshot, the state it ends in: either the record set to \<open>finish\<close> and the
  target row to \<open>ready\<close> together (the call returns the new canvas), or the record set to
  \<open>failed\<close> and the target row left alone (the call fails).
\<close>

theorem duplicate_record_lifecycle:
  assumes src: "find (sourceWhere usr canvasId chk) (canvas_tbl (prisma w)) = Some canvas"
    and fresh: "genCanvasID env \<notin> set (map c_canvasId (canvas_tbl (prisma w)))"
  shows "\<exists>rest.
            commits (snd (duplicateCanvas env w usr title canvasId dup chk))
              = commits w @ withTarget env usr (newTitleOf title canvas) (prisma w)
                  # withRecord env usr canvasId
                      (withTarget env usr (newTitleOf title canvas) (prisma w))
                  # rest
          \<and> canvas_tbl (withTarget env usr (newTitleOf title canvas) (prisma w))
              = canvas_tbl (prisma w) @ [newCanvasRow env usr (newTitleOf title canvas)]
          \<and> duplicateRecord_tbl (withTarget env usr (newTitleOf title canvas) (prisma w))
              = duplicateRecord_tbl (prisma w)
          \<and> c_status (newCanvasRow env usr (newTitleOf title canvas)) = ''duplicating''
          \<and> canvas_tbl (withRecord env usr canvasId
                          (withTarget env usr (newTitleOf title canvas) (prisma w)))
              = canvas_tbl (prisma w) @ [newCanvasRow env usr (newTitleOf title canvas)]
          \<and> duplicateRecord_tbl (withRecord env usr canvasId
                                   (withTarget env usr (newTitleOf title canvas) (prisma w)))
              = duplicateRecord_tbl (prisma w) @ [pendingRecord env usr canvasId (prisma w)]
          \<and> dr_status (pendingRecord env usr canvasId (prisma w)) = ''pending''
          \<and> dr_targetId (pendingRecord env usr canvasId (prisma w))
              = c_canvasId (newCanvasRow env usr (newTitleOf title canvas))
          \<and> (uid usr \<in> set (map u_uid (user_tbl (prisma w))) \<longrightarrow>
               (\<exists>d3. rest = [d3]
                  \<and> prisma (snd (duplicateCanvas env w usr title canvasId dup chk)) = d3
                  \<and> ((fst (duplicateCanvas env w usr title canvasId dup chk)
                         = Inr (newCanvasRow env usr (newTitleOf title canvas))
                       \<and> d3 = finishedDb env usr (newTitleOf title canvas) canvasId (prisma w))
                     \<or> ((\<exists>e. fst (duplicateCanvas env w usr title canvasId dup chk) = Inl e)
                       \<and> d3 = failedDb env usr (newTitleOf title canvas) canvasId (prisma w)))))"
proof -
  from duplicateCanvas_history[OF src fresh, of title dup] obtain rest where
    hist: "commits (snd (duplicateCanvas env w usr title canvasId dup chk))
              = commits w @ withTarget env usr (newTitleOf title canvas) (prisma w)
                  # withRecord env usr canvasId
                      (withTarget env usr (newTitleOf title canvas) (prisma w))
                  # rest"
    by blast
  have tables:
    "canvas_tbl (withTarget env usr (newTitleOf title canvas) (prisma w))
       = canvas_tbl (prisma w) @ [newCanvasRow env usr (newTitleOf title canvas)]"
    "duplicateRecord_tbl (withTarget env usr (newTitleOf title canvas) (prisma w))
       = duplicateRecord_tbl (prisma w)"
    "c_status (newCanvasRow env usr (newTitleOf title canvas)) = ''duplicating''"
    "canvas_tbl (withRecord env usr canvasId
                   (withTarget env usr (newTitleOf title canvas) (prisma w)))
       = canvas_tbl (prisma w) @ [newCanvasRow env usr (newTitleOf title canvas)]"
    "duplicateRecord_tbl (withRecord env usr canvasId
                            (withTarget env usr (newTitleOf title canvas) (prisma w)))
       = duplicateRecord_tbl (prisma w) @ [pendingRecord env usr canvasId (prisma w)]"
    "dr_status (pendingRecord env usr canvasId (prisma w)) = ''pending''"
    "dr_targetId (pendingRecord env usr canvasId (prisma w))
       = c_canvasId (newCanvasRow env usr (newTitleOf title canvas))"
    by (simp_all add: withTarget_def withRecord_def newCanvasRow_def pendingRecord_def)
  have last: "\<exists>d3. rest = [d3]
                  \<and> prisma (snd (duplicateCanvas env w usr title canvasId dup chk)) = d3
                  \<and> ((fst (duplicateCanvas env w usr title canvasId dup chk)
                         = Inr (newCanvasRow env usr (newTitleOf title canvas))
                       \<and> d3 = finishedDb env usr (newTitleOf title canvas) canvasId (prisma w))
                     \<or> ((\<exists>e. fst (duplicateCanvas env w usr title canvasId dup chk) = Inl e)
                       \<and> d3 = failedDb env usr (newTitleOf title canvas) canvasId (prisma w)))"
    if usr: "uid usr \<in> set (map u_uid (user_tbl (prisma w)))"
  proof -
    from duplicateCanvas_ends[OF src fresh usr, of title dup] obtain d3 where
      d3: "commits (snd (duplicateCanvas env w usr title canvasId dup chk))
              = commits w @ [withTarget env usr (newTitleOf title canvas) (prisma w),
                   withRecord env usr canvasId
                     (withTarget env usr (newTitleOf title canvas) (prisma w)),
                   d3]"
      and rest: "prisma (snd (duplicateCanvas env w usr title canvasId dup chk)) = d3
          \<and> ((fst (duplicateCanvas env w usr title canvasId dup chk)
                 = Inr (newCanvasRow env usr (newTitleOf title canvas))
               \<and> d3 = finishedDb env usr (newTitleOf title canvas) canvasId (prisma w))
             \<or> ((\<exists>e. fst (duplicateCanvas env w usr title canvasId dup chk) = Inl e)
               \<and> d3 = failedDb env usr (newTitleOf title canvas) canvasId (prisma w)))"
      by blast
    from hist d3 have "rest = [d3]" by simp
    with rest show ?thesis by blast
  qed
  from hist tables last show ?thesis by blast
qed

theorem duplicate_record_lifecycle_witness:
  "find (sourceWhere alice ''c1'' False) (canvas_tbl (prisma world0)) = Some canvas1
   \<and> genCanvasID env0 \<notin> set (map c_canvasId (canvas_tbl (prisma world0)))
   \<and> uid alice \<in> set (map u_uid (user_tbl (prisma world0)))
   \<and> map recordStatuses (commits (snd (duplicateCanvas env0 world0 alice None ''c1'' False False)))
       = [[], [(''c9'', ''pending'')], [(''c9'', ''finish'')]]
   \<and> map canvasStatuses (commits (snd (duplicateCanvas env0 world0 alice None ''c1'' False False)))
       = [[(''c1'', ''ready''), (''c2'', ''ready''), (''c3'', ''ready''), (''c9'', ''duplicating'')],
          [(''c1'', ''ready''), (''c2'', ''ready''), (''c3'', ''ready''), (''c9'', ''duplicating'')],
          [(''c1'', ''ready''), (''c2'', ''ready''), (''c3'', ''ready''), (''c9'', ''ready'')]]"
proof -
  have src: "find (sourceWhere alice ''c1'' False) (canvas_tbl (prisma world0)) = Some canvas1"
    by (simp add: example_defs sourceWhere_def)
  have fresh: "genCanvasID env0 \<notin> set (map c_canvasId (canvas_tbl (prisma world0)))"
    by (simp add: example_defs)
  have usr: "uid alice \<in> set (map u_uid (user_tbl (prisma world0)))"
    by (simp add: example_defs)
  have ok: "fst (duplicateCanvas env0 world0 alice None ''c1'' False False)
              = Inr (newCanvasRow env0 alice (newTitleOf None canvas1))"
    by (simp add: example_defs duplication_defs)
  from duplicate_record_lifecycle[OF src fresh, of None False] usr ok
  have "commits (snd (duplicateCanvas env0 world0 alice None ''c1'' False False))
      = commits world0 @ [withTarget env0 alice (newTitleOf None canvas1) (prisma world0),
                   withRecord env0 alice ''c1''
                     (withTarget env0 alice (newTitleOf None canvas1) (prisma world0)),
                   finishedDb env0 alice (newTitleOf None canvas1) ''c1'' (prisma world0)]"
    by auto
  with src fresh usr show ?thesis
    by (simp add: canvasStatuses_def recordStatuses_def finishedDb_def withTarget_def withRecord_def)
       (simp add: example_defs pendingRecord_def newCanvasRow_def newTitleOf_def truthy_opt_def next_pk_def)
qed

text \<open>
  The claim fails on a user without a user row: the copy body returns at once, the call
  returns the new canvas, only two snapshots were written, the first holds the target row
  and no record, and the record is \<open>pending\<close> for good.
\<close>

theorem duplicate_record_lifecycle_counterexample:
  "fst (duplicateCanvas env0 world0 carol None ''c1'' False False)
     = Inr \<lparr>c_uid = ''u3'', c_canvasId = ''c9'', c_title = ''Plan'', c_status = ''duplicating'',
            c_stateStorageKey = Some ''state/c9'', c_minimapStorageKey = None,
            c_createdAt = 100, c_updatedAt = 100, c_deletedAt = None\<rparr>
   \<and> map canvasStatuses (commits (snd (duplicateCanvas env0 world0 carol None ''c1'' False False)))
       = [[(''c1'', ''ready''), (''c2'', ''ready''), (''c3'', ''ready''), (''c9'', ''duplicating'')],
          [(''c1'', ''ready''), (''c2'', ''ready''), (''c3'', ''ready''), (''c9'', ''duplicating'')]]
   \<and> map recordStatuses (commits (snd (duplicateCanvas env0 world0 carol None ''c1'' False False)))
       = [[], [(''c9'', ''pending'')]]
   \<and> recordStatuses (prisma (snd (duplicateCanvas env0 world0 carol None ''c1'' False False)))
       = [(''c9'', ''pending'')]"
  by (simp add: example_defs carol_def duplication_defs)

subsection \<open>The nodes of the copy\<close>

lemma duplicate_stores_nodes:
  assumes uniq: "distinct (map c_canvasId (canvas_tbl (prisma w)))"
    and src: "find (sourceWhere usr canvasId chk) (canvas_tbl (prisma w)) = Some canvas"
    and fresh: "genCanvasID env \<notin> set (map c_canvasId (canvas_tbl (prisma w)))"
    and usr: "find (\<lambda>u. u_uid u = uid usr) (user_tbl (prisma w)) = Some urow"
    and run: "copyBody env w usr title canvas canvasId dup = (Inr u, w3)"
  shows "\<exists>doc. minio w3 (''state/'' @ genCanvasID env) = Some (Encoded doc)
           \<and> y_nodes doc = (if dup then map (forkedNode env (uid usr) (genCanvasID env)) (storedNodes w canvas)
                             else storedNodes w canvas)"
proof -
  define t where "t = newTitleOf title canvas"
  define job where "job = copyJob env usr t canvasId dup
              (pendingRecord env usr canvasId (withTarget env usr t (prisma w)))"
  define w2 where "w2 = beforeCopy env w usr t canvasId"
  have run': "priv_duplicateCanvas env w2 job = (Inr u, w3)"
    using run by (simp add: copyBody_def Let_def t_def job_def w2_def)
  have usr': "find (\<lambda>u. u_uid u = job_uid job) (user_tbl (prisma w2)) = Some urow"
    using usr by (simp add: job_def copyJob_def beforeCopy_simps withRecord_simps withTarget_simps w2_def)
  have uu: "u_uid urow = uid usr" using find_Some_mem[OF usr] by simp
  from find_Some_mem[OF src] have cin: "canvas \<in> set (canvas_tbl (prisma w))"
    and cw: "c_canvasId canvas = canvasId" "c_deletedAt canvas = None"
    by (auto simp: sourceWhere_def)
  have "find (\<lambda>c. c_canvasId c = canvasId \<and> c_deletedAt c = None) (canvas_tbl (prisma w)) = Some canvas"
    by (rule find_by_unique_key[OF uniq cin]) (use cw in auto)
  then have src': "find (\<lambda>c. c_canvasId c = job_sourceCanvasId job \<and> c_deletedAt c = None)
             (canvas_tbl (prisma w2)) = Some canvas"
    by (simp add: job_def copyJob_def w2_def beforeCopy_simps withRecord_simps withTarget_simps
        find_append_old)
  from priv_success[OF run' usr'] src' obtain doc nodes where
    rd: "(if truthy_opt (c_stateStorageKey canvas)
             then readObject w2 (the (c_stateStorageKey canvas)) else Inr new_ydoc) = Inr doc"
    and nd: "(if job_duplicateEntities job
             then duplicateEntities env urow (job_targetCanvasId job) (y_nodes doc)
             else Inr (y_nodes doc)) = Inr nodes"
    and mn: "minio w3 = (minio w2)(''state/'' @ job_targetCanvasId job \<mapsto>
                           Encoded (doc\<lparr>y_title := job_title job, y_nodes := nodes\<rparr>))"
    by auto
  have ro: "readObject w2 k = readObject w k" for k
    by (simp add: readObject_def w2_def beforeCopy_simps)
  have sn: "storedNodes w canvas = y_nodes doc"
    using rd unfolding ro
    by (auto simp: storedNodes_def getCanvasYDoc_def truthy_opt_def new_ydoc_def
        split: option.splits if_splits sum.splits)
  have tgt: "job_targetCanvasId job = genCanvasID env" "job_duplicateEntities job = dup"
    by (simp_all add: job_def copyJob_def)
  have "nodes = (if dup then map (forkedNode env (uid usr) (genCanvasID env)) (storedNodes w canvas)
                             else storedNodes w canvas)"
    using nd duplicateEntities_map[of env urow "genCanvasID env" "y_nodes doc" nodes]
    by (auto simp: tgt sn uu split: if_splits)
  with mn show ?thesis by (simp add: tgt)
qed

text \<open>
  C3 as the code has it. The claim is that without \<open>forkEntities\<close> the target has the
  node list of the source, and that with it every document, resource and skillResponse
  node gets the id of a newly created entity. In the code a node keeps its entity id when
  its service returns no entity. What holds, for a duplication that succeeds, with unique
  canvas ids and a user that has a row in the user table: \<open>getCanvasRawData\<close> on the target
  returns, without \<open>duplicateEntities\<close>, the node list stored for the source, and with it
  that list with \<open>forkedNode\<close> applied to every node. \<open>forkedNode\<close> keeps the node's id,
  type, title and metadata, and the entity id becomes the id the service of the node's
  type returned, or stays when there is no such service or it returned no entity.
\<close>

theorem duplicate_copies_nodes:
  assumes uniq: "distinct (map c_canvasId (canvas_tbl (prisma w)))"
    and src: "find (sourceWhere usr canvasId chk) (canvas_tbl (prisma w)) = Some canvas"
    and usr: "uid usr \<in> set (map u_uid (user_tbl (prisma w)))"
    and ok: "fst (duplicateCanvas env w usr title canvasId dup chk) = Inr target"
  shows "(\<exists>raw. getCanvasRawData env (snd (duplicateCanvas env w usr title canvasId dup chk)) usr
                   (c_canvasId target) = Inr raw
            \<and> raw_nodes raw
                = (if dup then map (forkedNode env (uid usr) (c_canvasId target)) (storedNodes w canvas)
                   else storedNodes w canvas))
       \<and> n_id (forkedNode env r t n) = n_id n
       \<and> n_type (forkedNode env r t n) = n_type n
       \<and> nd_title (n_data (forkedNode env r t n)) = nd_title (n_data n)
       \<and> nd_metadata (n_data (forkedNode env r t n)) = nd_metadata (n_data n)
       \<and> nd_entityId (n_data (forkedNode env r t n))
           = (case forkedId env r t n of None \<Rightarrow> nd_entityId (n_data n) | Some newId \<Rightarrow> newId)"
proof -
  have fresh: "genCanvasID env \<notin> set (map c_canvasId (canvas_tbl (prisma w)))"
  proof (rule ccontr)
    assume "\<not> ?thesis"
    then have "fst (duplicateCanvas env w usr title canvasId dup chk)
                 = Inl (PrismaError ''unique constraint: canvasId'')"
      unfolding duplicateCanvas_def src
      by (simp add: Let_def prisma_write_def canvas_create_def newCanvasRow_def)
    with ok show False by simp
  qed
  obtain urow where u: "find (\<lambda>x. u_uid x = uid usr) (user_tbl (prisma w)) = Some urow"
    using find_user[OF usr] by blast
  obtain res w3 where run: "copyBody env w usr title canvas canvasId dup = (res, w3)"
    by (cases "copyBody env w usr title canvas canvasId dup")
  have "\<exists>v. res = Inr v"
  proof (cases res)
    case (Inl e)
    from duplicateCanvas_failed(1)[OF src fresh run[unfolded Inl]] ok show ?thesis by simp
  qed simp
  then obtain v where run': "copyBody env w usr title canvas canvasId dup = (Inr v, w3)"
    using run by blast
  note fin = duplicateCanvas_finished[OF src fresh u run']
  define row where "row = newCanvasRow env usr (newTitleOf title canvas)"
  have target: "target = row" and w': "snd (duplicateCanvas env w usr title canvasId dup chk) = w3"
    using fin(1) ok by (simp_all add: row_def)
  have tid: "c_canvasId target = genCanvasID env"
    by (simp add: target row_def newCanvasRow_def)
  from duplicate_stores_nodes[OF uniq src fresh u run'] obtain doc where
    obj: "minio w3 (''state/'' @ genCanvasID env) = Some (Encoded doc)"
    and nodes: "y_nodes doc = (if dup then map (forkedNode env (uid usr) (genCanvasID env)) (storedNodes w canvas)
                             else storedNodes w canvas)"
    by blast
  have none: "\<forall>x \<in> set (canvas_tbl (prisma w)).
            \<not> (c_canvasId x = genCanvasID env \<and> c_uid x = uid usr \<and> c_deletedAt x = None)"
    using fresh by force
  have "find (\<lambda>c. c_canvasId c = genCanvasID env \<and> c_uid c = uid usr \<and> c_deletedAt c = None)
          (canvas_tbl (prisma w3)) = Some (row\<lparr>c_status := ''ready''\<rparr>)"
    unfolding fin(2) finishedDb_def
    by (simp add: row_def[symmetric]) (rule find_append_new[OF none], simp add: row_def newCanvasRow_def)
  moreover have "getCanvasYDoc w3 (c_stateStorageKey (row\<lparr>c_status := ''ready''\<rparr>)) = Some doc"
    using obj by (simp add: getCanvasYDoc_def row_def newCanvasRow_def readObject_def truthy_def)
  ultimately have "\<exists>raw. getCanvasRawData env w3 usr (genCanvasID env) = Inr raw
            \<and> raw_nodes raw = y_nodes doc"
    by (simp add: getCanvasRawData_def Let_def)
  then show ?thesis
    unfolding w' tid nodes by (simp add: forkedNode_keeps)
qed

lemmas read_defs = getCanvasRawData_def getCanvasYDoc_def storedNodes_def forkedNode_def forkedId_def

theorem duplicate_copies_nodes_witness:
  "distinct (map c_canvasId (canvas_tbl (prisma world0)))
   \<and> find (sourceWhere alice ''c1'' False) (canvas_tbl (prisma world0)) = Some canvas1
   \<and> uid alice \<in> set (map u_uid (user_tbl (prisma world0)))
   \<and> fst (duplicateCanvas env0 world0 alice None ''c1'' True False)
       = Inr (newCanvasRow env0 alice ''Plan'')
   \<and> nodePairs (storedNodes world0 canvas1)
       = [(''d1'', ''document''), (''m1'', ''memo''), (''r1'', ''skillResponse'')]
   \<and> (\<exists>raw. getCanvasRawData env0 (snd (duplicateCanvas env0 world0 alice None ''c1'' True False))
               alice ''c9'' = Inr raw
          \<and> nodePairs (raw_nodes raw)
              = [(''copy-d1'', ''document''), (''m1'', ''memo''), (''copy-r1'', ''skillResponse'')])"
proof -
  have uniq: "distinct (map c_canvasId (canvas_tbl (prisma world0)))"
    by (simp add: example_defs)
  have src: "find (sourceWhere alice ''c1'' False) (canvas_tbl (prisma world0)) = Some canvas1"
    by (simp add: example_defs sourceWhere_def)
  have usr: "uid alice \<in> set (map u_uid (user_tbl (prisma world0)))"
    by (simp add: example_defs)
  have ok: "fst (duplicateCanvas env0 world0 alice None ''c1'' True False)
              = Inr (newCanvasRow env0 alice ''Plan'')"
    by (simp add: example_defs duplication_defs)
  have stored: "storedNodes world0 canvas1 = [node_d1, node_m1, node_r1]"
    by (simp add: storedNodes_def getCanvasYDoc_def readObject_def truthy_def world0_def canvas1_def doc1_def)
  have new: "c_canvasId (newCanvasRow env0 alice ''Plan'') = ''c9''"
    by (simp add: newCanvasRow_def env0_def)
  from duplicate_copies_nodes[OF uniq src usr ok, THEN conjunct1] obtain raw where
    "getCanvasRawData env0 (snd (duplicateCanvas env0 world0 alice None ''c1'' True False))
               alice ''c9'' = Inr raw"
    and "raw_nodes raw = map (forkedNode env0 (uid alice) ''c9'') [node_d1, node_m1, node_r1]"
    unfolding new stored by auto
  moreover have "nodePairs (map (forkedNode env0 (uid alice) ''c9'') [node_d1, node_m1, node_r1])
     = [(''copy-d1'', ''document''), (''m1'', ''memo''), (''copy-r1'', ''skillResponse'')]"
    by (simp add: nodePairs_def nodeEntity_def forkedNode_def forkedId_def setEntityId_def
        env0_def alice_def node_d1_def node_m1_def node_r1_def)
  moreover have "nodePairs [node_d1, node_m1, node_r1]
       = [(''d1'', ''document''), (''m1'', ''memo''), (''r1'', ''skillResponse'')]"
    by (simp add: nodePairs_def nodeEntity_def node_d1_def node_m1_def node_r1_def)
  ultimately show ?thesis
    using uniq src usr ok stored by simp
qed

text \<open>
  The claim fails where the document service returns no entity (the document node keeps
  the id \<open>d1\<close> of the source's entity), and for a user without a user row (the call
  returns the new canvas, and the target has no nodes).
\<close>

theorem duplicate_copies_nodes_counterexample:
  "nodePairs (storedNodes world0 canvas1)
       = [(''d1'', ''document''), (''m1'', ''memo''), (''r1'', ''skillResponse'')]
   \<and> fst (duplicateCanvas env1 world0 alice None ''c1'' True False)
       = Inr (newCanvasRow env1 alice ''Plan'')
   \<and> map_sum id (\<lambda>raw. nodePairs (raw_nodes raw))
        (getCanvasRawData env1 (snd (duplicateCanvas env1 world0 alice None ''c1'' True False)) alice ''c9'')
       = Inr [(''d1'', ''document''), (''m1'', ''memo''), (''copy-r1'', ''skillResponse'')]
   \<and> fst (duplicateCanvas env0 world0 carol None ''c1'' False False)
       = Inr (newCanvasRow env0 carol ''Plan'')
   \<and> map_sum id raw_nodes
        (getCanvasRawData env0 (snd (duplicateCanvas env0 world0 carol None ''c1'' False False)) carol ''c9'')
       = Inr []"
  by (simp add: example_defs env1_def carol_def duplication_defs read_defs)

subsection \<open>A source that is not there\<close>

text \<open>
  C6 as the code has it. The claim is that \<open>duplicateCanvas\<close> fails with NotFound on a
  source that is missing, soft-deleted or not owned by the requesting user. In the code
  the owner is compared only when \<open>checkOwnership\<close> is set. What holds: when every row
  with the source id is soft-deleted, or (with \<open>checkOwnership\<close>) belongs to another user
  (no row at all being the empty case), the call fails with \<open>CanvasNotFoundError\<close> and
  the state is unchanged: no target row, no DuplicateRecord.
\<close>

theorem unauthorized_source_not_found:
  assumes "\<forall>c \<in> set (canvas_tbl (prisma w)).
             c_canvasId c = canvasId \<longrightarrow> c_deletedAt c \<noteq> None \<or> (chk \<and> c_uid c \<noteq> uid usr)"
  shows "duplicateCanvas env w usr title canvasId dup chk = (Inl CanvasNotFoundError, w)"
proof -
  have "find (sourceWhere usr canvasId chk) (canvas_tbl (prisma w)) = None"
    using assms by (auto simp: find_None_iff sourceWhere_def split: if_splits)
  then show ?thesis by (simp add: duplicateCanvas_def)
qed

theorem unauthorized_source_not_found_witness:
  "duplicateCanvas env0 world0 bob None ''c1'' True True = (Inl CanvasNotFoundError, world0)
   \<and> duplicateCanvas env0 world0 alice None ''c2'' True False = (Inl CanvasNotFoundError, world0)
   \<and> duplicateCanvas env0 world0 alice None ''c7'' True False = (Inl CanvasNotFoundError, world0)"
proof -
  have "duplicateCanvas env0 world0 bob None ''c1'' True True = (Inl CanvasNotFoundError, world0)"
    by (rule unauthorized_source_not_found) (simp add: example_defs)
  moreover have "duplicateCanvas env0 world0 alice None ''c2'' True False = (Inl CanvasNotFoundError, world0)"
    by (rule unauthorized_source_not_found) (simp add: example_defs)
  moreover have "duplicateCanvas env0 world0 alice None ''c7'' True False = (Inl CanvasNotFoundError, world0)"
    by (rule unauthorized_source_not_found) (simp add: example_defs)
  ultimately show ?thesis by simp
qed

text \<open>
  Without \<open>checkOwnership\<close> the canvas of another user is duplicated: the call returns
  the new canvas, which ends \<open>ready\<close>, with its record \<open>finish\<close>.
\<close>

theorem unauthorized_source_not_found_counterexample:
  "c_uid canvas1 \<noteq> uid bob
   \<and> find (sourceWhere bob ''c1'' False) (canvas_tbl (prisma world0)) = Some canvas1
   \<and> fst (duplicateCanvas env0 world0 bob None ''c1'' False False)
       = Inr (newCanvasRow env0 bob ''Plan'')
   \<and> canvasStatuses (prisma (snd (duplicateCanvas env0 world0 bob None ''c1'' False False)))
       = [(''c1'', ''ready''), (''c2'', ''ready''), (''c3'', ''ready''), (''c9'', ''ready'')]
   \<and> recordStatuses (prisma (snd (duplicateCanvas env0 world0 bob None ''c1'' False False)))
       = [(''c9'', ''finish'')]"
  by (simp add: example_defs duplication_defs)

section \<open>Naming a canvas that has no content\<close>

text \<open>
  C9. Take a live canvas of the requesting user with no action result targeting it and
  no document or resource row behind a live document or resource relation of it. Then
  \<open>autoNameCanvas\<close> returns the empty title and the state it started in: the log of model
  calls is the one before the call, so neither the default-model lookup nor the title
  generation has run.
\<close>

theorem autoName_without_content:
  assumes live: "c \<in> set (canvas_tbl (prisma w))" "c_uid c = uid usr" "c_deletedAt c = None"
    and noResults: "\<forall>r \<in> set (actionResult_tbl (prisma w)).
                      \<not> (ar_targetId r = c_canvasId c \<and> ar_targetType r = ''canvas'')"
    and noEntities: "\<forall>r \<in> set (canvasEntityRelation_tbl (prisma w)).
                       r_canvasId r = c_canvasId c \<and> r_deletedAt r = None
                       \<and> r_entityType r \<in> {''resource'', ''document''}
                       \<longrightarrow> r_entityId r \<notin> d_docId ` set (document_tbl (prisma w))
                         \<and> r_entityId r \<notin> rs_resourceId ` set (resource_tbl (prisma w))"
  shows "autoNameCanvas env w usr (c_canvasId c) directUpdate = (Inr [], w)
       \<and> modelCalls (snd (autoNameCanvas env w usr (c_canvasId c) directUpdate)) = modelCalls w"
proof -
  obtain c' where found: "find (\<lambda>x. c_canvasId x = c_canvasId c \<and> c_uid x = uid usr \<and> c_deletedAt x = None)
             (canvas_tbl (prisma w)) = Some c'"
    using live
    by (cases "find (\<lambda>x. c_canvasId x = c_canvasId c \<and> c_uid x = uid usr \<and> c_deletedAt x = None)
             (canvas_tbl (prisma w))") (auto simp: find_None_iff)
  have results: "filter (\<lambda>r. ar_targetId r = c_canvasId c \<and> ar_targetType r = ''canvas'')
                      (actionResult_tbl (prisma w)) = []"
    using noResults by (auto simp: filter_empty_conv)
  define rels where "rels = filter (\<lambda>r. r_canvasId r = c_canvasId c
                                  \<and> r_entityType r \<in> {''resource'', ''document''}
                                  \<and> r_deletedAt r = None)
                        (canvasEntityRelation_tbl (prisma w))"
  have rel: "r_entityId r \<notin> d_docId ` set (document_tbl (prisma w))
           \<and> r_entityId r \<notin> rs_resourceId ` set (resource_tbl (prisma w))" if "r \<in> set rels" for r
  proof -
    from that have "r \<in> set (canvasEntityRelation_tbl (prisma w))"
      and "r_canvasId r = c_canvasId c \<and> r_deletedAt r = None
           \<and> r_entityType r \<in> {''resource'', ''document''}"
      unfolding rels_def by auto
    with noEntities show ?thesis by blast
  qed
  have docs: "filter (\<lambda>x. d_docId x \<in> set (map r_entityId rels)) (document_tbl (prisma w)) = []"
  proof -
    have "d_docId x \<notin> set (map r_entityId rels)" if x: "x \<in> set (document_tbl (prisma w))" for x
    proof
      assume "d_docId x \<in> set (map r_entityId rels)"
      then obtain r where r: "r \<in> set rels" "r_entityId r = d_docId x" by auto
      from x have "d_docId x \<in> d_docId ` set (document_tbl (prisma w))" by (rule imageI)
      with rel[OF r(1)] r(2) show False by simp
    qed
    then show ?thesis by (simp add: filter_empty_conv)
  qed
  have ress: "filter (\<lambda>x. rs_resourceId x \<in> set (map r_entityId rels)) (resource_tbl (prisma w)) = []"
  proof -
    have "rs_resourceId x \<notin> set (map r_entityId rels)" if x: "x \<in> set (resource_tbl (prisma w))" for x
    proof
      assume "rs_resourceId x \<in> set (map r_entityId rels)"
      then obtain r where r: "r \<in> set rels" "r_entityId r = rs_resourceId x" by auto
      from x have "rs_resourceId x \<in> rs_resourceId ` set (resource_tbl (prisma w))" by (rule imageI)
      with rel[OF r(1)] r(2) show False by simp
    qed
    then show ?thesis by (simp add: filter_empty_conv)
  qed
  have items: "entityItems (prisma w) (c_canvasId c) = []"
    unfolding entityItems_def Let_def rels_def[symmetric] docs ress by simp
  have "autoNameCanvas env w usr (c_canvasId c) directUpdate = (Inr [], w)"
    unfolding autoNameCanvas_def found Let_def results by (simp add: items)
  then show ?thesis by simp
qed

theorem autoName_without_content_witness:
  "canvas1 \<in> set (canvas_tbl (prisma world0)) \<and> c_uid canvas1 = uid alice \<and> c_deletedAt canvas1 = None
   \<and> relation1 \<in> set (canvasEntityRelation_tbl (prisma world0))
   \<and> autoNameCanvas env0 world0 alice ''c1'' True = (Inr [], world0)
   \<and> modelCalls (snd (autoNameCanvas env0 world0 alice ''c1'' True)) = []"
proof -
  have live: "canvas1 \<in> set (canvas_tbl (prisma world0))" "c_uid canvas1 = uid alice"
      "c_deletedAt canvas1 = None"
    by (simp_all add: example_defs)
  have noResults: "\<forall>r \<in> set (actionResult_tbl (prisma world0)).
                      \<not> (ar_targetId r = c_canvasId canvas1 \<and> ar_targetType r = ''canvas'')"
    by (simp add: example_defs)
  have noEntities: "\<forall>r \<in> set (canvasEntityRelation_tbl (prisma world0)).
                       r_canvasId r = c_canvasId canvas1 \<and> r_deletedAt r = None
                       \<and> r_entityType r \<in> {''resource'', ''document''}
                       \<longrightarrow> r_entityId r \<notin> d_docId ` set (document_tbl (prisma world0))
                         \<and> r_entityId r \<notin> rs_resourceId ` set (resource_tbl (prisma world0))"
    by (simp add: example_defs)
  have cid: "c_canvasId canvas1 = ''c1''" by (simp add: canvas1_def)
  from autoName_without_content[OF live noResults noEntities, of env0 True] live
  show ?thesis
    unfolding cid by (simp add: world0_def db0_def)
qed

text \<open>
  For comparison, the same canvas once there is a document row behind its relation row:
  the model is looked up and asked for a title.
\<close>

lemma autoName_with_content_example:
  "autoNameCanvas env0 world4 alice ''c1'' False
     = (Inr ''Untitled'',
        world4\<lparr>modelCalls := [GetDefaultModel,
                                GenerateCanvasTitle [TitlePreview ''Notes'' ''First lines'']]\<rparr>)"
  by (simp add: autoNameCanvas_def entityItems_def Let_def example_defs world4_def)

section \<open>Deleting a canvas leaves its relation rows alone\<close>











section \<open>Removing the nodes of deleted entities\<close>

subsection \<open>Deleting at descending indices\<close>

lemma deleteAt_append:
  assumes "i < length xs"
  shows "deleteAt i (xs @ ys) = deleteAt i xs @ ys"
  using assms by (simp add: deleteAt_def)

lemma length_deleteAt:
  assumes "i < length xs"
  shows "length (deleteAt i xs) = length xs - 1"
  using assms by (simp add: deleteAt_def)

lemma deleteAt_last: "deleteAt (length xs) (xs @ [x]) = xs"
  by (simp add: deleteAt_def)

text \<open>Deleting at descending indices below the length of a prefix stays inside the prefix.\<close>

lemma fold_deleteAt_append:
  assumes "sorted_wrt (>) is" and "\<forall>i \<in> set is. i < length xs"
  shows "fold deleteAt is (xs @ ys) = fold deleteAt is xs @ ys"
  using assms
proof (induction "is" arbitrary: xs)
  case Nil
  show ?case by simp
next
  case (Cons i rest)
  from Cons.prems have i: "i < length xs" and below: "\<forall>j \<in> set rest. j < i"
    and desc: "sorted_wrt (>) rest" by auto
  have "\<forall>j \<in> set rest. j < length (deleteAt i xs)"
    using below i by (auto simp: length_deleteAt)
  from Cons.IH[OF desc this] show ?case
    by (simp add: deleteAt_append[OF i])
qed

lemma indices_snoc:
  "filter (\<lambda>i. P ((xs @ [x]) ! i)) [0..<length (xs @ [x])]
     = filter (\<lambda>i. P (xs ! i)) [0..<length xs] @ (if P x then [length xs] else [])"
proof -
  have "filter (\<lambda>i. P ((xs @ [x]) ! i)) [0..<length xs] = filter (\<lambda>i. P (xs ! i)) [0..<length xs]"
    by (rule filter_cong) (auto simp: nth_append)
  then show ?thesis by simp
qed

lemma descending_delete_is_filter:
  "fold deleteAt (rev (filter (\<lambda>i. P (xs ! i)) [0..<length xs])) xs = filter (\<lambda>x. \<not> P x) xs"
proof (induction xs rule: rev_induct)
  case Nil
  show ?case by simp
next
  case (snoc x xs)
  let ?is = "filter (\<lambda>i. P (xs ! i)) [0..<length xs]"
  have desc: "sorted_wrt (>) (rev ?is)"
    by (simp add: sorted_wrt_rev sorted_wrt_filter)
  have below: "\<forall>i \<in> set (rev ?is). i < length xs" by simp
  show ?case
  proof (cases "P x")
    case True
    then show ?thesis
      unfolding indices_snoc using snoc.IH by (simp add: deleteAt_last)
  next
    case False
    then show ?thesis
      unfolding indices_snoc using snoc.IH fold_deleteAt_append[OF desc below, of "[x]"] by simp
  qed
qed

lemma removeNodes_filter:
  "removeNodes entities nodes = filter (\<lambda>n. \<not> nodeMatches entities n) nodes"
  unfolding removeNodes_def Let_def by (rule descending_delete_is_filter)

subsection \<open>All canvases\<close>

lemma find_canvas_iff:
  "(find (\<lambda>c. c_canvasId c = cid) cs = None) = (cid \<notin> set (map c_canvasId cs))"
  by (auto simp: find_None_iff)

lemma deleteFromCanvas_effect:
  "canvas_tbl (prisma (deleteFromCanvas env es cid w)) = canvas_tbl (prisma w)"
  "canvasEntityRelation_tbl (prisma (deleteFromCanvas env es cid w))
     = (if cid \<in> set (map c_canvasId (canvas_tbl (prisma w)))
        then map (\<lambda>r. if r_canvasId r = cid \<and> relationSelected es r
                       then r\<lparr>r_deletedAt := Some (now env)\<rparr> else r)
               (canvasEntityRelation_tbl (prisma w))
        else canvasEntityRelation_tbl (prisma w))"
  "y_nodes (collab (deleteFromCanvas env es cid w) c)
     = (if c = cid \<and> cid \<in> set (map c_canvasId (canvas_tbl (prisma w)))
        then filter (\<lambda>n. \<not> nodeMatches es n) (y_nodes (collab w c))
        else y_nodes (collab w c))"
proof -
  show "canvas_tbl (prisma (deleteFromCanvas env es cid w)) = canvas_tbl (prisma w)"
    by (simp add: deleteFromCanvas_def Let_def prisma_write_def relation_updateMany_def transact_def
        split: option.splits)
  show "canvasEntityRelation_tbl (prisma (deleteFromCanvas env es cid w))
     = (if cid \<in> set (map c_canvasId (canvas_tbl (prisma w)))
        then map (\<lambda>r. if r_canvasId r = cid \<and> relationSelected es r
                       then r\<lparr>r_deletedAt := Some (now env)\<rparr> else r)
               (canvasEntityRelation_tbl (prisma w))
        else canvasEntityRelation_tbl (prisma w))"
    using find_canvas_iff[of cid "canvas_tbl (prisma w)"]
    by (cases "find (\<lambda>c. c_canvasId c = cid) (canvas_tbl (prisma w))")
       (simp_all add: deleteFromCanvas_def Let_def prisma_write_def relation_updateMany_def transact_def)
  show "y_nodes (collab (deleteFromCanvas env es cid w) c)
     = (if c = cid \<and> cid \<in> set (map c_canvasId (canvas_tbl (prisma w)))
        then filter (\<lambda>n. \<not> nodeMatches es n) (y_nodes (collab w c))
        else y_nodes (collab w c))"
    using find_canvas_iff[of cid "canvas_tbl (prisma w)"]
    by (cases "find (\<lambda>c. c_canvasId c = cid) (canvas_tbl (prisma w))")
       (simp_all add: deleteFromCanvas_def Let_def prisma_write_def relation_updateMany_def transact_def
          removeNodes_filter)
qed

lemma relationSelected_marked:
  "\<not> relationSelected es (r\<lparr>r_deletedAt := Some t\<rparr>)"
  by (simp add: relationSelected_def)

lemma fold_deleteFromCanvas:
  "canvas_tbl (prisma (fold (deleteFromCanvas env es) cids w)) = canvas_tbl (prisma w)
   \<and> canvasEntityRelation_tbl (prisma (fold (deleteFromCanvas env es) cids w))
       = map (\<lambda>r. if r_canvasId r \<in> set cids \<inter> set (map c_canvasId (canvas_tbl (prisma w)))
                      \<and> relationSelected es r
                   then r\<lparr>r_deletedAt := Some (now env)\<rparr> else r)
           (canvasEntityRelation_tbl (prisma w))
   \<and> (\<forall>c. y_nodes (collab (fold (deleteFromCanvas env es) cids w) c)
       = (if c \<in> set cids \<inter> set (map c_canvasId (canvas_tbl (prisma w)))
          then filter (\<lambda>n. \<not> nodeMatches es n) (y_nodes (collab w c))
          else y_nodes (collab w c)))"
proof (induction cids arbitrary: w)
  case Nil
  show ?case by simp
next
  case (Cons cid cids)
  define w1 where "w1 = deleteFromCanvas env es cid w"
  note eff = deleteFromCanvas_effect[of env es cid w, folded w1_def]
  note IH = Cons.IH[of w1, unfolded eff(1)]
  have step: "fold (deleteFromCanvas env es) (cid # cids) w = fold (deleteFromCanvas env es) cids w1"
    by (simp add: w1_def)
  show ?case
    unfolding step
  proof (intro conjI allI)
    show "canvas_tbl (prisma (fold (deleteFromCanvas env es) cids w1)) = canvas_tbl (prisma w)"
      using IH by simp
    show "canvasEntityRelation_tbl (prisma (fold (deleteFromCanvas env es) cids w1))
       = map (\<lambda>r. if r_canvasId r \<in> set (cid # cids) \<inter> set (map c_canvasId (canvas_tbl (prisma w)))
                      \<and> relationSelected es r
                   then r\<lparr>r_deletedAt := Some (now env)\<rparr> else r)
           (canvasEntityRelation_tbl (prisma w))"
      using IH unfolding eff(2)
      by (auto simp: relationSelected_marked)
    fix c
    show "y_nodes (collab (fold (deleteFromCanvas env es) cids w1) c)
       = (if c \<in> set (cid # cids) \<inter> set (map c_canvasId (canvas_tbl (prisma w)))
          then filter (\<lambda>n. \<not> nodeMatches es n) (y_nodes (collab w c))
          else y_nodes (collab w c))"
      using IH unfolding eff(3) by auto
  qed
qed

lemma nodeMatches_iff:
  assumes "\<forall>e \<in> set entities. truthy (entityId e) \<and> truthy (entityType e)"
  shows "nodeMatches entities n = (nodeEntity n \<in> set entities)"
proof -
  have "(find (\<lambda>e. entityId e = nd_entityId (n_data n) \<and> entityType e = n_type n) entities \<noteq> None)
          = (nodeEntity n \<in> set entities)"
    by (auto simp: find_None_iff nodeEntity_def)
  moreover have "truthy (nd_entityId (n_data n)) \<and> truthy (n_type n)" if "nodeEntity n \<in> set entities"
    using assms that by (auto simp: nodeEntity_def)
  ultimately show ?thesis
    by (auto simp: nodeMatches_def Let_def)
qed

text \<open>
  C5 as the code has it. The claim is made for every set of pairs; the code skips a
  canvas id that has no row in the canvas table, and never matches a node whose entity id
  or type is empty. What holds: let every given entity have a non-empty id and type, and
  let every live relation row belong to a canvas of the canvas table. After
  \<open>deleteEntityNodesFromCanvases\<close>:
  in every canvas that held a live relation row to one of the given entities, the node
  list is the old one without the nodes whose (entityId, type) is a given pair; in every
  canvas whatsoever the nodes that match no given pair are the same as before, in the same
  order; every relation row for a given pair is soft-deleted, and no relation row has been
  added, removed or given other keys. The nodes of one canvas are removed by collecting
  the matching indices and deleting them from the highest down (\<open>removeNodes\<close>), which
  leaves exactly the nodes that match no given pair.
\<close>

theorem delete_entity_nodes_everywhere:
  assumes wf: "\<forall>e \<in> set entities. truthy (entityId e) \<and> truthy (entityType e)"
    and ri: "\<forall>r \<in> set (canvasEntityRelation_tbl (prisma w)).
               r_deletedAt r = None \<longrightarrow> r_canvasId r \<in> set (map c_canvasId (canvas_tbl (prisma w)))"
  shows "(\<forall>canvasId. holdsLiveRelation (prisma w) canvasId entities \<longrightarrow>
            y_nodes (collab (deleteEntityNodesFromCanvases env w entities) canvasId)
              = filter (\<lambda>n. nodeEntity n \<notin> set entities) (y_nodes (collab w canvasId)))
       \<and> (\<forall>canvasId.
            filter (\<lambda>n. nodeEntity n \<notin> set entities)
              (y_nodes (collab (deleteEntityNodesFromCanvases env w entities) canvasId))
              = filter (\<lambda>n. nodeEntity n \<notin> set entities) (y_nodes (collab w canvasId)))
       \<and> (\<forall>r \<in> set (canvasEntityRelation_tbl (prisma (deleteEntityNodesFromCanvases env w entities))).
            relationEntity r \<in> set entities \<longrightarrow> r_deletedAt r \<noteq> None)
       \<and> relationKeys (prisma (deleteEntityNodesFromCanvases env w entities)) = relationKeys (prisma w)
       \<and> removeNodes entities nodes = filter (\<lambda>n. nodeEntity n \<notin> set entities) nodes"
proof -
  define rels where "rels = filter (relationSelected entities) (canvasEntityRelation_tbl (prisma w))"
  define cids where "cids = remdups (map r_canvasId rels)"
  define w' where "w' = deleteEntityNodesFromCanvases env w entities"
  define ids where "ids = set (map c_canvasId (canvas_tbl (prisma w)))"
  have w'_eq: "w' = fold (deleteFromCanvas env entities) cids w"
    unfolding w'_def deleteEntityNodesFromCanvases_def Let_def rels_def[symmetric] cids_def[symmetric]
    by simp
  note fold = fold_deleteFromCanvas[of env entities cids w, folded w'_eq ids_def]
  have keep: "(\<lambda>n. \<not> nodeMatches entities n) = (\<lambda>n. nodeEntity n \<notin> set entities)"
    using nodeMatches_iff[OF wf] by auto
  have nodes: "y_nodes (collab w' c)
       = (if c \<in> set cids \<inter> ids then filter (\<lambda>n. nodeEntity n \<notin> set entities) (y_nodes (collab w c))
          else y_nodes (collab w c))" for c
    using fold unfolding keep by blast
  have sel: "r_canvasId r \<in> set cids \<inter> ids"
    if "r \<in> set (canvasEntityRelation_tbl (prisma w))" "r_deletedAt r = None"
       "relationEntity r \<in> set entities" for r
  proof -
    from that have "relationSelected entities r"
      by (force simp: relationSelected_def relationEntity_def)
    with that(1) have "r \<in> set rels" by (simp add: rels_def)
    then have "r_canvasId r \<in> set cids" by (simp add: cids_def)
    moreover from ri that(1,2) have "r_canvasId r \<in> ids" by (simp add: ids_def)
    ultimately show ?thesis by simp
  qed
  have a: "y_nodes (collab w' c) = filter (\<lambda>n. nodeEntity n \<notin> set entities) (y_nodes (collab w c))"
    if "holdsLiveRelation (prisma w) c entities" for c
  proof -
    from that obtain r where "r \<in> set (canvasEntityRelation_tbl (prisma w))" "r_canvasId r = c"
      "r_deletedAt r = None" "relationEntity r \<in> set entities"
      by (auto simp: holdsLiveRelation_def list_ex_iff)
    with sel[of r] have "c \<in> set cids \<inter> ids" by simp
    then show ?thesis using nodes[of c] by simp
  qed
  have b: "filter (\<lambda>n. nodeEntity n \<notin> set entities) (y_nodes (collab w' c))
              = filter (\<lambda>n. nodeEntity n \<notin> set entities) (y_nodes (collab w c))" for c
    using nodes[of c] by simp
  have rel': "canvasEntityRelation_tbl (prisma w')
       = map (\<lambda>r. if r_canvasId r \<in> set cids \<inter> ids \<and> relationSelected entities r
                   then r\<lparr>r_deletedAt := Some (now env)\<rparr> else r)
           (canvasEntityRelation_tbl (prisma w))"
    using fold by blast
  have c: "r_deletedAt r' \<noteq> None"
    if "r' \<in> set (canvasEntityRelation_tbl (prisma w'))" "relationEntity r' \<in> set entities" for r'
  proof -
    from that(1) obtain r where r: "r \<in> set (canvasEntityRelation_tbl (prisma w))"
      and r': "r' = (if r_canvasId r \<in> set cids \<inter> ids \<and> relationSelected entities r
                   then r\<lparr>r_deletedAt := Some (now env)\<rparr> else r)"
      unfolding rel' by auto
    show ?thesis
    proof (cases "r_deletedAt r = None")
      case True
      have ent: "relationEntity r \<in> set entities"
        using that(2) r' by (auto simp: relationEntity_def split: if_splits)
      then have "relationSelected entities r"
        using True by (force simp: relationSelected_def relationEntity_def)
      with sel[OF r True ent] r' show ?thesis by simp
    next
      case False
      with r' show ?thesis by (auto split: if_splits)
    qed
  qed
  have d: "relationKeys (prisma w') = relationKeys (prisma w)"
    unfolding relationKeys_def rel' by (simp add: comp_def if_distrib cong: if_cong)
  have e: "removeNodes entities nodes = filter (\<lambda>n. nodeEntity n \<notin> set entities) nodes"
    unfolding removeNodes_filter keep ..
  from a b c d e show ?thesis unfolding w'_def by blast
qed

lemmas remove_defs = deleteEntityNodesFromCanvases_def deleteFromCanvas_def removeNodes_def
  deleteAt_def nodeMatches_def relationSelected_def transact_def prisma_write_def
  relation_updateMany_def truthy_def Let_def

theorem delete_entity_nodes_everywhere_witness:
  "truthy ''d1'' \<and> truthy ''document''
   \<and> holdsLiveRelation (prisma world1) ''c1'' [(''d1'', ''document'')]
   \<and> holdsLiveRelation (prisma world1) ''c3'' [(''d1'', ''document'')]
   \<and> nodePairs (y_nodes (collab world1 ''c3''))
       = [(''d1'', ''document''), (''m1'', ''memo''), (''d1'', ''document''),
          (''r1'', ''skillResponse''), (''d1'', ''document'')]
   \<and> y_nodes (collab (deleteEntityNodesFromCanvases env0 world1 [(''d1'', ''document'')]) ''c1'')
       = [node_m1, node_r1]
   \<and> y_nodes (collab (deleteEntityNodesFromCanvases env0 world1 [(''d1'', ''document'')]) ''c3'')
       = [node_m1, node_r1]
   \<and> map r_deletedAt
        (canvasEntityRelation_tbl (prisma (deleteEntityNodesFromCanvases env0 world1 [(''d1'', ''document'')])))
       = [Some 100, Some 100]"
proof -
  have wf: "\<forall>e \<in> set [(''d1'', ''document'')]. truthy (entityId e) \<and> truthy (entityType e)"
    by (simp add: truthy_def)
  have ri: "\<forall>r \<in> set (canvasEntityRelation_tbl (prisma world1)).
               r_deletedAt r = None \<longrightarrow> r_canvasId r \<in> set (map c_canvasId (canvas_tbl (prisma world1)))"
    by (simp add: example_defs world1_def relation3_def)
  have h1: "holdsLiveRelation (prisma world1) ''c1'' [(''d1'', ''document'')]"
    and h3: "holdsLiveRelation (prisma world1) ''c3'' [(''d1'', ''document'')]"
    by (simp_all add: holdsLiveRelation_def relationEntity_def example_defs world1_def relation3_def)
  note main = delete_entity_nodes_everywhere[OF wf ri, of env0]
  have n1: "y_nodes (collab (deleteEntityNodesFromCanvases env0 world1 [(''d1'', ''document'')]) ''c1'')
       = filter (\<lambda>n. nodeEntity n \<notin> set [(''d1'', ''document'')]) (y_nodes (collab world1 ''c1''))"
    using main h1 by blast
  have n3: "y_nodes (collab (deleteEntityNodesFromCanvases env0 world1 [(''d1'', ''document'')]) ''c3'')
       = filter (\<lambda>n. nodeEntity n \<notin> set [(''d1'', ''document'')]) (y_nodes (collab world1 ''c3''))"
    using main h3 by blast
  have rel: "map r_deletedAt
        (canvasEntityRelation_tbl (prisma (deleteEntityNodesFromCanvases env0 world1 [(''d1'', ''document'')])))
       = [Some 100, Some 100]"
    by (simp add: example_defs world1_def relation3_def remove_defs)
  show ?thesis
    unfolding n1 n3 using h1 h3 rel
    by (simp add: truthy_def nodePairs_def nodeEntity_def example_defs world1_def relation3_def)
qed

text \<open>
  The claim fails outside these conditions. A live relation row of a canvas without a
  row in the canvas table: the canvas is skipped, its node stays and its relation row
  stays live, while the row of the first canvas is soft-deleted. A pair with an empty
  entity id: the relation row is soft-deleted, the node with that pair stays.
\<close>

theorem delete_entity_nodes_everywhere_counterexample:
  "holdsLiveRelation (prisma world5) ''c7'' [(''d1'', ''document'')]
   \<and> nodePairs (y_nodes (collab world5 ''c7'')) = [(''d1'', ''document''), (''m1'', ''memo'')]
   \<and> nodePairs (y_nodes (collab (deleteEntityNodesFromCanvases env0 world5 [(''d1'', ''document'')]) ''c7''))
       = [(''d1'', ''document''), (''m1'', ''memo'')]
   \<and> map (\<lambda>r. (r_canvasId r, relationEntity r, r_deletedAt r))
        (canvasEntityRelation_tbl (prisma (deleteEntityNodesFromCanvases env0 world5 [(''d1'', ''document'')])))
       = [(''c1'', (''d1'', ''document''), Some 100), (''c7'', (''d1'', ''document''), None)]
   \<and> holdsLiveRelation (prisma world6) ''c1'' [('''', ''document'')]
   \<and> nodePairs (y_nodes (collab world6 ''c1'')) = [('''', ''document''), (''m1'', ''memo'')]
   \<and> nodePairs (y_nodes (collab (deleteEntityNodesFromCanvases env0 world6 [('''', ''document'')]) ''c1''))
       = [('''', ''document''), (''m1'', ''memo'')]
   \<and> map (\<lambda>r. (r_canvasId r, relationEntity r, r_deletedAt r))
        (canvasEntityRelation_tbl (prisma (deleteEntityNodesFromCanvases env0 world6 [('''', ''document'')])))
       = [(''c1'', ('''', ''document''), Some 100)]"
  by (simp add: example_defs world5_def relation7_def world6_def relation_e1_def node_e1_def
      remove_defs holdsLiveRelation_def relationEntity_def nodePairs_def nodeEntity_def)

section \<open>Reconciling the relation rows with the nodes\<close>

lemma insert_without_unique_key:
  assumes "\<And>r r'. \<not> conflict r r'"
  shows "insertSkippingDuplicates conflict tbl rows = tbl @ rows"
  using assms by (induction rows arbitrary: tbl) (simp_all add: list_ex_iff)

lemma sync_effect:
  assumes ex: "canvasId \<in> set (map c_canvasId (canvas_tbl (prisma w)))"
    and nokey: "\<And>r r'. \<not> relationConflict env r r'"
  shows "fst (syncCanvasEntityRelation env w canvasId) = Inr ()"
    and "canvasEntityRelation_tbl (prisma (snd (syncCanvasEntityRelation env w canvasId)))
           = map (\<lambda>r. if r_canvasId r = canvasId \<and> r_deletedAt r = None
                           \<and> r_entityId r \<notin> entityId ` set (nodeEntities (y_nodes (collab w canvasId)))
                        then r\<lparr>r_deletedAt := Some (now env)\<rparr> else r)
               (canvasEntityRelation_tbl (prisma w))
             @ map (newRelation canvasId)
                 (filter (\<lambda>e. entityId e \<notin> r_entityId ` set (liveRelations (prisma w) canvasId))
                    (nodeEntities (y_nodes (collab w canvasId))))"
proof -
  obtain canvas where found: "find (\<lambda>c. c_canvasId c = canvasId) (canvas_tbl (prisma w)) = Some canvas"
    using ex by (cases "find (\<lambda>c. c_canvasId c = canvasId) (canvas_tbl (prisma w))")
                (auto simp: find_None_iff)
  have cid: "c_canvasId canvas = canvasId" using find_Some_mem[OF found] by simp
  define E where "E = nodeEntities (y_nodes (collab w canvasId))"
  define L where "L = liveRelations (prisma w) canvasId"
  have removed: "(r_canvasId r = canvasId
                      \<and> r_entityId r \<in> set (map r_entityId (filter (\<lambda>relation. r_entityId relation \<notin> set (map entityId E)) L))
                      \<and> r_deletedAt r = None)
                = (r_canvasId r = canvasId \<and> r_deletedAt r = None \<and> r_entityId r \<notin> entityId ` set E)"
    if "r \<in> set (canvasEntityRelation_tbl (prisma w))" for r
  proof (cases "r_canvasId r = canvasId \<and> r_deletedAt r = None")
    case True
    with that have "r \<in> set L" by (simp add: L_def liveRelations_def)
    then have "r_entityId r \<in> r_entityId ` set L" by (rule imageI)
    moreover have "(r_entityId r \<in> set (map r_entityId (filter (\<lambda>relation. r_entityId relation \<notin> S) L)))
                 = (r_entityId r \<in> r_entityId ` set L \<and> r_entityId r \<notin> S)" for S
      by auto
    ultimately show ?thesis using True by simp
  next
    case False
    then show ?thesis by auto
  qed
  have mark: "map (\<lambda>r. if r_canvasId r = canvasId
                      \<and> r_entityId r \<in> set (map r_entityId (filter (\<lambda>relation. r_entityId relation \<notin> set (map entityId E)) L))
                      \<and> r_deletedAt r = None then r\<lparr>r_deletedAt := Some (now env)\<rparr> else r)
               (canvasEntityRelation_tbl (prisma w))
            = map (\<lambda>r. if r_canvasId r = canvasId \<and> r_deletedAt r = None \<and> r_entityId r \<notin> entityId ` set E
                        then r\<lparr>r_deletedAt := Some (now env)\<rparr> else r)
               (canvasEntityRelation_tbl (prisma w))"
    by (rule map_cong[OF refl]) (simp only: removed)
  have run: "syncCanvasEntityRelation env w canvasId
     = promise_all
           [prisma_write
              (relation_updateMany
                 (\<lambda>r. r_canvasId r = canvasId
                      \<and> r_entityId r \<in> set (map r_entityId (filter (\<lambda>relation. r_entityId relation \<notin> set (map entityId E)) L))
                      \<and> r_deletedAt r = None)
                 (\<lambda>r. r\<lparr>r_deletedAt := Some (now env)\<rparr>)),
            prisma_write
              (relation_createMany (relationConflict env)
                 (map (newRelation canvasId) (filter (\<lambda>e. entityId e \<notin> set (map r_entityId L)) E)))]
           w"
    unfolding syncCanvasEntityRelation_def found
    by (simp only: option.case Let_def cid E_def L_def liveRelations_def)
  show "fst (syncCanvasEntityRelation env w canvasId) = Inr ()"
    unfolding run by (simp add: prisma_write_def relation_updateMany_def relation_createMany_def)
  show "canvasEntityRelation_tbl (prisma (snd (syncCanvasEntityRelation env w canvasId)))
           = map (\<lambda>r. if r_canvasId r = canvasId \<and> r_deletedAt r = None
                           \<and> r_entityId r \<notin> entityId ` set (nodeEntities (y_nodes (collab w canvasId)))
                        then r\<lparr>r_deletedAt := Some (now env)\<rparr> else r)
               (canvasEntityRelation_tbl (prisma w))
             @ map (newRelation canvasId)
                 (filter (\<lambda>e. entityId e \<notin> r_entityId ` set (liveRelations (prisma w) canvasId))
                    (nodeEntities (y_nodes (collab w canvasId))))"
  proof -
    have "canvasEntityRelation_tbl (prisma (snd (syncCanvasEntityRelation env w canvasId)))
      = map (\<lambda>r. if r_canvasId r = canvasId
                      \<and> r_entityId r \<in> set (map r_entityId (filter (\<lambda>relation. r_entityId relation \<notin> set (map entityId E)) L))
                      \<and> r_deletedAt r = None then r\<lparr>r_deletedAt := Some (now env)\<rparr> else r)
               (canvasEntityRelation_tbl (prisma w))
        @ map (newRelation canvasId) (filter (\<lambda>e. entityId e \<notin> set (map r_entityId L)) E)"
      unfolding run
      by (simp add: prisma_write_def relation_updateMany_def relation_createMany_def
          insert_without_unique_key[of "relationConflict env", OF nokey]
          del: set_map set_filter)
    then have "canvasEntityRelation_tbl (prisma (snd (syncCanvasEntityRelation env w canvasId)))
      = map (\<lambda>r. if r_canvasId r = canvasId \<and> r_deletedAt r = None \<and> r_entityId r \<notin> entityId ` set E
                        then r\<lparr>r_deletedAt := Some (now env)\<rparr> else r)
               (canvasEntityRelation_tbl (prisma w))
        @ map (newRelation canvasId) (filter (\<lambda>e. entityId e \<notin> set (map r_entityId L)) E)"
      by (simp only: mark)
    then show ?thesis
      unfolding E_def L_def by simp
  qed
qed

lemma sync_live:
  assumes ex: "canvasId \<in> set (map c_canvasId (canvas_tbl (prisma w)))"
    and nokey: "\<And>r r'. \<not> relationConflict env r r'"
  shows "liveRelations (prisma (snd (syncCanvasEntityRelation env w canvasId))) canvasId
           = filter (\<lambda>r. r_entityId r \<in> entityId ` set (nodeEntities (y_nodes (collab w canvasId))))
               (liveRelations (prisma w) canvasId)
             @ map (newRelation canvasId)
                 (filter (\<lambda>e. entityId e \<notin> r_entityId ` set (liveRelations (prisma w) canvasId))
                    (nodeEntities (y_nodes (collab w canvasId))))"
    and "c \<noteq> canvasId \<Longrightarrow>
         liveRelations (prisma (snd (syncCanvasEntityRelation env w canvasId))) c
           = liveRelations (prisma w) c"
proof -
  define E where "E = nodeEntities (y_nodes (collab w canvasId))"
  define N where "N = filter (\<lambda>e. entityId e \<notin> r_entityId ` set (liveRelations (prisma w) canvasId)) E"
  note tbl = sync_effect(2)[OF ex nokey, folded E_def, folded N_def]
  have new: "filter (\<lambda>r. r_canvasId r = c \<and> r_deletedAt r = None) (map (newRelation canvasId) xs)
               = (if c = canvasId then map (newRelation canvasId) xs else [])" for c xs
    by (induction xs) (auto simp: newRelation_def)
  have old: "filter (\<lambda>r. r_canvasId r = c \<and> r_deletedAt r = None)
               (map (\<lambda>r. if r_canvasId r = canvasId \<and> r_deletedAt r = None \<and> r_entityId r \<notin> entityId ` set E
                        then r\<lparr>r_deletedAt := Some (now env)\<rparr> else r) rs)
             = (if c = canvasId
                then filter (\<lambda>r. r_entityId r \<in> entityId ` set E) (filter (\<lambda>r. r_canvasId r = c \<and> r_deletedAt r = None) rs)
                else filter (\<lambda>r. r_canvasId r = c \<and> r_deletedAt r = None) rs)" for c rs
    by (induction rs) auto
  show "liveRelations (prisma (snd (syncCanvasEntityRelation env w canvasId))) canvasId
           = filter (\<lambda>r. r_entityId r \<in> entityId ` set (nodeEntities (y_nodes (collab w canvasId))))
               (liveRelations (prisma w) canvasId)
             @ map (newRelation canvasId)
                 (filter (\<lambda>e. entityId e \<notin> r_entityId ` set (liveRelations (prisma w) canvasId))
                    (nodeEntities (y_nodes (collab w canvasId))))"
    unfolding liveRelations_def[of "prisma (snd (syncCanvasEntityRelation env w canvasId))"] tbl
    unfolding E_def[symmetric]
    by (simp add: new old N_def) (simp add: liveRelations_def)
  show "c \<noteq> canvasId \<Longrightarrow>
         liveRelations (prisma (snd (syncCanvasEntityRelation env w canvasId))) c
           = liveRelations (prisma w) c"
    unfolding liveRelations_def[of "prisma (snd (syncCanvasEntityRelation env w canvasId))"] tbl
    by (simp add: new old) (simp add: liveRelations_def)
qed

lemma relationEntity_newRelation: "relationEntity (newRelation c e) = e"
  by (simp add: relationEntity_def newRelation_def)

lemma r_entityId_newRelation: "r_entityId (newRelation c e) = entityId e"
  by (simp add: newRelation_def)

text \<open>
  C4 as the code has it. The claim is that after a pass the live relation rows of the
  canvas are exactly the (type, entityId) pairs of its nodes, one row each. The pass
  compares entity ids only, never types, and asks for one new row per node occurrence.
  What holds, for a canvas that has a row and a relation table without a unique key of its
  own (so that the insert leaves out nothing): the pass succeeds, and afterwards the entity ids of
  the canvas's live relation rows are exactly the entity ids of its nodes with a non-empty
  id and type; when every live row that shares its entity id with such a node also has
  the node's type, the (entityId, type) pairs of the live rows are exactly the pairs of
  those nodes; when no pair is repeated among the live rows before the pass nor among the
  nodes, no pair is repeated among the live rows after it; and the live relation rows of
  every other canvas are the same as before.
\<close>

theorem sync_relations:
  assumes ex: "canvasId \<in> set (map c_canvasId (canvas_tbl (prisma w)))"
    and nokey: "\<forall>r r'. \<not> relationConflict env r r'"
  shows "fst (syncCanvasEntityRelation env w canvasId) = Inr ()
       \<and> r_entityId ` set (liveRelations (prisma (snd (syncCanvasEntityRelation env w canvasId))) canvasId)
           = entityId ` set (nodeEntities (y_nodes (collab w canvasId)))
       \<and> ((\<forall>r \<in> set (liveRelations (prisma w) canvasId).
              \<forall>e \<in> set (nodeEntities (y_nodes (collab w canvasId))).
                r_entityId r = entityId e \<longrightarrow> r_entityType r = entityType e)
            \<longrightarrow> relationEntity ` set (liveRelations (prisma (snd (syncCanvasEntityRelation env w canvasId))) canvasId)
                  = set (nodeEntities (y_nodes (collab w canvasId))))
       \<and> (distinct (map relationEntity (liveRelations (prisma w) canvasId))
              \<and> distinct (nodeEntities (y_nodes (collab w canvasId)))
            \<longrightarrow> distinct (map relationEntity
                            (liveRelations (prisma (snd (syncCanvasEntityRelation env w canvasId))) canvasId)))
       \<and> (\<forall>c. c \<noteq> canvasId \<longrightarrow>
              liveRelations (prisma (snd (syncCanvasEntityRelation env w canvasId))) c
                = liveRelations (prisma w) c)"
proof -
  define E where "E = nodeEntities (y_nodes (collab w canvasId))"
  define L where "L = liveRelations (prisma w) canvasId"
  define L' where "L' = liveRelations (prisma (snd (syncCanvasEntityRelation env w canvasId))) canvasId"
  define K where "K = filter (\<lambda>r. r_entityId r \<in> entityId ` set E) L"
  define N where "N = filter (\<lambda>e. entityId e \<notin> r_entityId ` set L) E"
  have L'_eq: "L' = K @ map (newRelation canvasId) N"
    unfolding L'_def K_def N_def E_def L_def by (rule sync_live(1)[OF ex]) (use nokey in simp)
  have pairs: "map relationEntity L' = map relationEntity K @ N"
    unfolding L'_eq by (simp add: comp_def relationEntity_newRelation)
  have ids: "r_entityId ` set L' = entityId ` set E"
  proof
    show "r_entityId ` set L' \<subseteq> entityId ` set E"
    proof
      fix i assume "i \<in> r_entityId ` set L'"
      then obtain r where r: "r \<in> set L'" "r_entityId r = i" by auto
      from r(1) have "r \<in> set K \<or> r \<in> newRelation canvasId ` set N"
        unfolding L'_eq by auto
      then show "i \<in> entityId ` set E"
      proof
        assume "r \<in> set K"
        with r(2) show ?thesis by (simp add: K_def)
      next
        assume "r \<in> newRelation canvasId ` set N"
        then obtain e where "e \<in> set N" "r = newRelation canvasId e" by auto
        then have "e \<in> set E" "r_entityId r = entityId e"
          by (simp_all add: N_def r_entityId_newRelation)
        with r(2) show ?thesis by (metis imageI)
      qed
    qed
    show "entityId ` set E \<subseteq> r_entityId ` set L'"
    proof
      fix i assume "i \<in> entityId ` set E"
      then obtain e where e: "e \<in> set E" "entityId e = i" by auto
      show "i \<in> r_entityId ` set L'"
      proof (cases "i \<in> r_entityId ` set L")
        case True
        then obtain r where "r \<in> set L" "r_entityId r = i" by auto
        with e have "r \<in> set K" by (auto simp: K_def)
        with \<open>r_entityId r = i\<close> show ?thesis unfolding L'_eq by force
      next
        case False
        with e have "e \<in> set N" by (simp add: N_def)
        then have "r_entityId (newRelation canvasId e) \<in> r_entityId ` set L'"
          unfolding L'_eq by simp
        with e show ?thesis by (simp add: r_entityId_newRelation)
      qed
    qed
  qed
  have agree: "relationEntity ` set L' = set E"
    if ag: "\<forall>r \<in> set L. \<forall>e \<in> set E. r_entityId r = entityId e \<longrightarrow> r_entityType r = entityType e"
  proof
    show "relationEntity ` set L' \<subseteq> set E"
    proof
      fix p assume "p \<in> relationEntity ` set L'"
      then have "p \<in> set (map relationEntity K) \<or> p \<in> set N"
        using pairs by (metis Un_iff set_append set_map)
      then show "p \<in> set E"
      proof
        assume "p \<in> set (map relationEntity K)"
        then obtain r where r: "r \<in> set L" "r_entityId r \<in> entityId ` set E" "p = relationEntity r"
          by (auto simp: K_def)
        then obtain e where e: "e \<in> set E" "entityId e = r_entityId r" by auto
        with ag r(1) have "r_entityType r = entityType e" by auto
        with e r(3) have "p = e" by (simp add: relationEntity_def prod_eq_iff)
        with e show ?thesis by simp
      next
        assume "p \<in> set N"
        then show ?thesis by (simp add: N_def)
      qed
    qed
    show "set E \<subseteq> relationEntity ` set L'"
    proof
      fix e assume e: "e \<in> set E"
      show "e \<in> relationEntity ` set L'"
      proof (cases "entityId e \<in> r_entityId ` set L")
        case True
        then obtain r where r: "r \<in> set L" "r_entityId r = entityId e" by auto
        with ag e have "r_entityType r = entityType e" by auto
        with r have "relationEntity r = e" by (simp add: relationEntity_def prod_eq_iff)
        moreover from r e have "r \<in> set K" by (auto simp: K_def)
        ultimately show ?thesis unfolding L'_eq by force
      next
        case False
        with e have "e \<in> set N" by (simp add: N_def)
        then have "e \<in> set (map relationEntity L')" unfolding pairs by simp
        then show ?thesis by simp
      qed
    qed
  qed
  have once: "distinct (map relationEntity L')"
    if d: "distinct (map relationEntity L) \<and> distinct E"
  proof -
    have "distinct (map relationEntity K)"
      using d unfolding K_def by (simp add: distinct_map_filter)
    moreover have "distinct N" using d by (simp add: N_def)
    moreover have "set (map relationEntity K) \<inter> set N = {}"
    proof -
      have "entityId p \<in> r_entityId ` set L" if "p \<in> set (map relationEntity K)" for p
        using that by (auto simp: K_def relationEntity_def)
      moreover have "entityId p \<notin> r_entityId ` set L" if "p \<in> set N" for p
        using that by (simp add: N_def)
      ultimately show ?thesis by blast
    qed
    ultimately show ?thesis unfolding pairs by simp
  qed
  have other: "liveRelations (prisma (snd (syncCanvasEntityRelation env w canvasId))) c
                = liveRelations (prisma w) c" if "c \<noteq> canvasId" for c
    by (rule sync_live(2)[OF ex _ that]) (use nokey in simp)
  have ok: "fst (syncCanvasEntityRelation env w canvasId) = Inr ()"
    by (rule sync_effect(1)[OF ex]) (use nokey in simp)
  from ok ids agree once other show ?thesis
    unfolding L'_def E_def L_def by blast
qed

lemma sync_example:
  assumes ex: "canvasId \<in> set (map c_canvasId (canvas_tbl (prisma w)))"
    and nokey: "\<And>r r'. \<not> relationConflict env r r'"
    and nodes: "nodeEntities (y_nodes (collab w canvasId)) = E"
    and live: "liveRelations (prisma w) canvasId = L"
  shows "fst (syncCanvasEntityRelation env w canvasId) = Inr ()
       \<and> map relationEntity (liveRelations (prisma (snd (syncCanvasEntityRelation env w canvasId))) canvasId)
           = map relationEntity (filter (\<lambda>r. r_entityId r \<in> entityId ` set E) L)
             @ filter (\<lambda>e. entityId e \<notin> r_entityId ` set L) E"
  using sync_effect(1)[OF ex nokey] sync_live(1)[OF ex nokey]
  unfolding nodes live by (simp add: comp_def relationEntity_newRelation)

theorem sync_relations_witness:
  "''c1'' \<in> set (map c_canvasId (canvas_tbl (prisma world0)))
   \<and> relationConflict env0 = (\<lambda>r r'. False)
   \<and> map relationEntity (liveRelations (prisma world0) ''c1'') = [(''d1'', ''document'')]
   \<and> nodeEntities (y_nodes (collab world0 ''c1''))
       = [(''d1'', ''document''), (''m1'', ''memo''), (''r1'', ''skillResponse'')]
   \<and> fst (syncCanvasEntityRelation env0 world0 ''c1'') = Inr ()
   \<and> map relationEntity (liveRelations (prisma (snd (syncCanvasEntityRelation env0 world0 ''c1''))) ''c1'')
       = [(''d1'', ''document''), (''m1'', ''memo''), (''r1'', ''skillResponse'')]"
proof -
  have ex: "''c1'' \<in> set (map c_canvasId (canvas_tbl (prisma world0)))"
    by (simp add: example_defs)
  have nokey: "\<forall>r r'. \<not> relationConflict env0 r r'"
    by (simp add: env0_def)
  have nodes: "nodeEntities (y_nodes (collab world0 ''c1''))
       = [(''d1'', ''document''), (''m1'', ''memo''), (''r1'', ''skillResponse'')]"
    by (simp add: example_defs nodeEntities_def nodeEntity_def truthy_def)
  have live: "liveRelations (prisma world0) ''c1'' = [relation1]"
    by (simp add: example_defs liveRelations_def)
  note main = sync_relations[OF ex nokey]
  from main have ok: "fst (syncCanvasEntityRelation env0 world0 ''c1'') = Inr ()"
    by blast
  have run: "map relationEntity (liveRelations (prisma (snd (syncCanvasEntityRelation env0 world0 ''c1''))) ''c1'')
       = [(''d1'', ''document''), (''m1'', ''memo''), (''r1'', ''skillResponse'')]"
    using sync_example[OF ex _ nodes live, of env0] nokey
    by (simp add: relation1_def relationEntity_def)
  have "relationConflict env0 = (\<lambda>r r'. False)"
    by (simp add: env0_def)
  with ex ok nodes live run show ?thesis
    by (simp add: relation1_def relationEntity_def)
qed

text \<open>
  The claim fails on a canvas whose document node was replaced by a resource node with
  the same entity id (the live row keeps the type \<open>document\<close>, whatever the unique keys
  of the table: nothing is inserted), and, the table having no unique key, on a canvas
  without relation rows that shows one document twice (the pass inserts two live rows for
  the one pair).
\<close>

theorem sync_relations_counterexample:
  "nodeEntities (y_nodes (collab world2 ''c1'')) = [(''d1'', ''resource'')]
   \<and> fst (syncCanvasEntityRelation env0 world2 ''c1'') = Inr ()
   \<and> map relationEntity (liveRelations (prisma (snd (syncCanvasEntityRelation env0 world2 ''c1''))) ''c1'')
       = [(''d1'', ''document'')]
   \<and> nodeEntities (y_nodes (collab world3 ''c3'')) = [(''d1'', ''document''), (''d1'', ''document'')]
   \<and> fst (syncCanvasEntityRelation env0 world3 ''c3'') = Inr ()
   \<and> map relationEntity (liveRelations (prisma (snd (syncCanvasEntityRelation env0 world3 ''c3''))) ''c3'')
       = [(''d1'', ''document''), (''d1'', ''document'')]"
proof -
  have ex2: "''c1'' \<in> set (map c_canvasId (canvas_tbl (prisma world2)))"
    by (simp add: example_defs world2_def world3_def node_x1_def)
  have nodes2: "nodeEntities (y_nodes (collab world2 ''c1'')) = [(''d1'', ''resource'')]"
    by (simp add: example_defs world2_def world3_def node_x1_def nodeEntities_def nodeEntity_def truthy_def)
  have live2: "liveRelations (prisma world2) ''c1'' = [relation1]"
    by (simp add: example_defs world2_def world3_def node_x1_def liveRelations_def)
  have ex3: "''c3'' \<in> set (map c_canvasId (canvas_tbl (prisma world3)))"
    by (simp add: example_defs world2_def world3_def node_x1_def)
  have nodes3: "nodeEntities (y_nodes (collab world3 ''c3'')) = [(''d1'', ''document''), (''d1'', ''document'')]"
    by (simp add: example_defs world2_def world3_def node_x1_def nodeEntities_def nodeEntity_def truthy_def)
  have live3: "liveRelations (prisma world3) ''c3'' = []"
    by (simp add: example_defs world2_def world3_def node_x1_def liveRelations_def)
  have nokey: "relationConflict env0 r r' = False" for r r'
    by (simp add: env0_def)
  from sync_example[OF ex2 _ nodes2 live2, of env0] sync_example[OF ex3 _ nodes3 live3, of env0]
    nodes2 nodes3 nokey
  show ?thesis by (simp add: relation1_def relationEntity_def)
qed

end
